theory Spec2Isabelle
  imports Complex_Main
begin

section \<open>Syntax trees (parsers/base-parser.ts)\<close>

text \<open>
  The analysers work on the tree a front-end hands over: plain JavaScript values whose
  objects are \<open>ASTNode\<close>s.  The interface declares \<open>type: string\<close>, an optional
  \<open>loc\<close> with \<open>start\<close>/\<open>end\<close> positions and an optional \<open>range\<close>; every
  other property sits behind the index signature \<open>[key: string]: any\<close>.  The three
  declared properties are kept in \<open>node_meta\<close> (\<open>ntype = None\<close> for an object
  without a \<open>type\<close>, such as the \<open>value\<close> of a template element), the remaining
  ones in an association list in the order the object enumerates them.  Strings are lists
  of characters; numbers are rationals (the rounding of doubles is not modelled).
\<close>

record position =
  line :: int
  column :: int

record source_range =
  start :: position
  finish :: position

record node_meta =
  ntype :: "string option"
  loc :: "source_range option"
  node_range :: "(nat \<times> nat) option"

datatype jsval =
    JUndefined
  | JNull
  | JBool bool
  | JNum rat
  | JStr string
  | JArr "jsval list"
  | JObj node_meta "(string \<times> jsval) list"

record ParseResult =
  ast :: jsval
  language :: string
  sourceCode :: string
  filePath :: string

subsection \<open>JavaScript operations the analysers use\<close>

fun truthy :: "jsval \<Rightarrow> bool" where
  "truthy JUndefined = False"
| "truthy JNull = False"
| "truthy (JBool b) = b"
| "truthy (JNum n) = (n \<noteq> 0)"
| "truthy (JStr s) = (s \<noteq> [])"
| "truthy (JArr xs) = True"
| "truthy (JObj m ps) = True"

fun type_of :: "jsval \<Rightarrow> string option" where
  "type_of (JObj m ps) = ntype m"
| "type_of v = None"

fun loc_of :: "jsval \<Rightarrow> source_range option" where
  "loc_of (JObj m ps) = loc m"
| "loc_of v = None"

fun range_of :: "jsval \<Rightarrow> (nat \<times> nat) option" where
  "range_of (JObj m ps) = node_range m"
| "range_of v = None"

text \<open>\<open>v.key\<close> and \<open>v?.key\<close> for a property behind the index signature (or \<open>type\<close>);
  reading a property of a primitive gives \<open>undefined\<close>.\<close>

fun get_prop :: "jsval \<Rightarrow> string \<Rightarrow> jsval" where
  "get_prop (JObj m ps) key =
     (if key = ''type'' then (case ntype m of Some t \<Rightarrow> JStr t | None \<Rightarrow> JUndefined)
      else (case map_of ps key of Some v \<Rightarrow> v | None \<Rightarrow> JUndefined))"
| "get_prop v key = JUndefined"

text \<open>\<open>child.type\<close> used as a condition: present and not the empty string.\<close>

definition has_type :: "jsval \<Rightarrow> bool" where
  "has_type v = (case type_of v of Some t \<Rightarrow> t \<noteq> [] | None \<Rightarrow> False)"

text \<open>\<open>visitor[node.type]\<close>: a missing type is looked up under the key \<open>undefined\<close>.\<close>

definition type_key :: "string option \<Rightarrow> string" where
  "type_key t = (case t of Some k \<Rightarrow> k | None \<Rightarrow> ''undefined'')"

text \<open>\<open>v?.[0]\<close>\<close>

fun first_element :: "jsval \<Rightarrow> jsval" where
  "first_element (JArr (x # xs)) = x"
| "first_element (JStr (c # cs)) = JStr [c]"
| "first_element v = JUndefined"

text \<open>The elements a \<open>for ... of\<close> or \<open>forEach\<close> runs over (the sources only iterate
  arrays here).\<close>

fun elements :: "jsval \<Rightarrow> jsval list" where
  "elements (JArr xs) = xs"
| "elements v = []"

definition newline :: char where
  "newline = CHR 0x0A"

definition carriage_return :: char where
  "carriage_return = CHR 0x0D"

fun split_lines :: "string \<Rightarrow> string list" where
  "split_lines [] = [[]]"
| "split_lines (c # cs) =
     (if c = newline then [] # split_lines cs
      else (case split_lines cs of
              l # ls \<Rightarrow> (c # l) # ls
            | [] \<Rightarrow> [[c]]))"

fun join_lines :: "string list \<Rightarrow> string" where
  "join_lines [] = []"
| "join_lines [l] = l"
| "join_lines (l # ls) = l @ [newline] @ join_lines ls"

text \<open>\<open>xs.slice(from, to)\<close> with integer arguments: a negative index counts from the
  end, and both are clamped to the array.\<close>

definition slice_index :: "nat \<Rightarrow> int \<Rightarrow> nat" where
  "slice_index n i = (if i < 0 then nat (max (int n + i) 0) else nat (min i (int n)))"

definition slice :: "'a list \<Rightarrow> int \<Rightarrow> int \<Rightarrow> 'a list" where
  "slice xs lo hi =
     (let a = slice_index (length xs) lo; b = slice_index (length xs) hi
      in take (b - a) (drop a xs))"

text \<open>\<open>s.substring(a, b)\<close>: the arguments are swapped when \<open>a > b\<close>.\<close>

definition substring :: "string \<Rightarrow> nat \<Rightarrow> nat \<Rightarrow> string" where
  "substring s a b = take (max a b - min a b) (drop (min a b) s)"

fun is_prefix :: "string \<Rightarrow> string \<Rightarrow> bool" where
  "is_prefix [] s = True"
| "is_prefix (k # ks) [] = False"
| "is_prefix (k # ks) (c # cs) = (k = c \<and> is_prefix ks cs)"

text \<open>\<open>s.includes(k)\<close>\<close>

fun str_includes :: "string \<Rightarrow> string \<Rightarrow> bool" where
  "str_includes [] k = (k = [])"
| "str_includes (c # cs) k = (is_prefix k (c # cs) \<or> str_includes cs k)"

text \<open>Case conversion of the ASCII letters (other characters are left alone).\<close>

definition upper_char :: "char \<Rightarrow> char" where
  "upper_char c =
     (let n = (of_char c :: nat) in if 97 \<le> n \<and> n \<le> 122 then char_of (n - 32) else c)"

definition lower_char :: "char \<Rightarrow> char" where
  "lower_char c =
     (let n = (of_char c :: nat) in if 65 \<le> n \<and> n \<le> 90 then char_of (n + 32) else c)"

definition toUpperCase :: "string \<Rightarrow> string" where
  "toUpperCase s = map upper_char s"

definition toLowerCase :: "string \<Rightarrow> string" where
  "toLowerCase s = map lower_char s"

text \<open>\<open>[a-zA-Z0-9]\<close>\<close>

definition alnum :: "char \<Rightarrow> bool" where
  "alnum c =
     (let n = (of_char c :: nat)
      in (48 \<le> n \<and> n \<le> 57) \<or> (65 \<le> n \<and> n \<le> 90) \<or> (97 \<le> n \<and> n \<le> 122))"

text \<open>Numbers inside template strings: the decimal digits of an integer; a number that is
  not an integer is written as its integer part followed by \<open>.\<close> and up to twenty
  decimals.  That is the text JavaScript prints for the numbers it writes in plain decimal
  notation; the exponent notation of very large and very small numbers is not modelled.\<close>

definition digit_char :: "nat \<Rightarrow> char" where
  "digit_char d = char_of (48 + d)"

fun show_nat :: "nat \<Rightarrow> string" where
  "show_nat n = (if n < 10 then [digit_char n] else show_nat (n div 10) @ [digit_char (n mod 10)])"

declare show_nat.simps [simp del]

definition show_int :: "int \<Rightarrow> string" where
  "show_int i = (if i < 0 then CHR ''-'' # show_nat (nat (- i)) else show_nat (nat i))"

fun decimals :: "nat \<Rightarrow> rat \<Rightarrow> string" where
  "decimals 0 r = []"
| "decimals (Suc fuel) r =
     (if r = 0 then []
      else (let d = \<lfloor>r * 10\<rfloor> in digit_char (nat d) # decimals fuel (r * 10 - of_int d)))"

definition show_number :: "rat \<Rightarrow> string" where
  "show_number r =
     (let a = \<bar>r\<bar>; whole = \<lfloor>a\<rfloor>; frac = a - of_int whole
      in (if r < 0 then ''-'' else '''') @ show_nat (nat whole)
         @ (if frac = 0 then [] else CHR ''.'' # decimals 20 frac))"

section \<open>Tree walker (parsers/ast-traverser.ts)\<close>

text \<open>
  A visitor callback receives the node, its parent and the path of node types, and may
  change the state \<open>'s\<close> its closure captures.  The walker only asks whether the callback
  returned \<open>false\<close>: that is the boolean of the result.  An entry of the visitor object
  is a function or an object with optional \<open>enter\<close> and \<open>exit\<close> functions.
\<close>

type_synonym 's VisitorFunction =
  "jsval \<Rightarrow> jsval option \<Rightarrow> string option list \<Rightarrow> 's \<Rightarrow> bool \<times> 's"

datatype 's visitor_entry =
    Fn "'s VisitorFunction"
  | EnterExit "'s VisitorFunction option" "'s VisitorFunction option"

type_synonym 's Visitor = "string \<rightharpoonup> 's visitor_entry"

definition ignoreKeys :: "string list" where
  "ignoreKeys = [''loc'', ''range'', ''start'', ''end'', ''type'', ''comments'',
     ''leadingComments'', ''trailingComments'', ''innerComments'', ''extra'', ''tokens'']"

text \<open>The enter call of \<open>traverse\<close> (lines 33 to 39): the result says whether the
  subtree is to be skipped.\<close>

definition callEnter :: "'s visitor_entry option \<Rightarrow> 's VisitorFunction" where
  "callEnter visitorFn node parent currentPath s =
     (case visitorFn of
        Some (Fn f) \<Rightarrow> f node parent currentPath s
      | Some (EnterExit (Some enter) ex) \<Rightarrow> enter node parent currentPath s
      | _ \<Rightarrow> (False, s))"

text \<open>The wildcard call (lines 41 to 44): only an entry that is itself a function is
  called, and what it returns is dropped.\<close>

definition callWildcard ::
  "'s Visitor \<Rightarrow> jsval \<Rightarrow> jsval option \<Rightarrow> string option list \<Rightarrow> 's \<Rightarrow> 's" where
  "callWildcard visitor node parent currentPath s =
     (case visitor ''*'' of
        Some (Fn w) \<Rightarrow> snd (w node parent currentPath s)
      | _ \<Rightarrow> s)"

text \<open>The exit call (lines 51 to 54).\<close>

definition callExit ::
  "'s visitor_entry option \<Rightarrow> jsval \<Rightarrow> jsval option \<Rightarrow> string option list \<Rightarrow> 's \<Rightarrow> 's" where
  "callExit visitorFn node parent currentPath s =
     (case visitorFn of
        Some (EnterExit en (Some exit)) \<Rightarrow> snd (exit node parent currentPath s)
      | _ \<Rightarrow> s)"

text \<open>
  \<open>traverse\<close>, \<open>traverseChildren\<close> (the loop over the keys of the node) and its inner
  loop over an array of children.  The argument is declared an \<open>ASTNode\<close>, an object
  with a \<open>type\<close>; a primitive value returns at once.  An array passed as the node
  itself is outside the declared type and is not modelled (arrays occur as property
  values, where \<open>traverseChildren\<close> runs over their elements).
\<close>

function traverse ::
    "jsval \<Rightarrow> 's Visitor \<Rightarrow> jsval option \<Rightarrow> string option list \<Rightarrow> 's \<Rightarrow> 's"
  and traverseChildren ::
    "jsval \<Rightarrow> (string \<times> jsval) list \<Rightarrow> 's Visitor \<Rightarrow> string option list \<Rightarrow> 's \<Rightarrow> 's"
  and traverseArray ::
    "jsval \<Rightarrow> jsval list \<Rightarrow> 's Visitor \<Rightarrow> string option list \<Rightarrow> 's \<Rightarrow> 's"
where
  "traverse node visitor parent path s =
     (case node of
        JObj m ps \<Rightarrow>
          (let currentPath = path @ [ntype m];
               visitorFn = visitor (type_key (ntype m));
               r = callEnter visitorFn node parent currentPath s;
               s2 = callWildcard visitor node parent currentPath (snd r);
               s3 = (if \<not> fst r then traverseChildren node ps visitor currentPath s2 else s2)
           in callExit visitorFn node parent currentPath s3)
      | _ \<Rightarrow> s)"
| "traverseChildren node [] visitor path s = s"
| "traverseChildren node ((key, value) # rest) visitor path s =
     (let s' = (if key \<in> set ignoreKeys then s
                else (case value of
                        JArr xs \<Rightarrow> traverseArray node xs visitor path s
                      | JObj m ps \<Rightarrow>
                          if has_type value then traverse value visitor (Some node) path s
                          else s
                      | _ \<Rightarrow> s))
      in traverseChildren node rest visitor path s')"
| "traverseArray node [] visitor path s = s"
| "traverseArray node (child # rest) visitor path s =
     (let s' = (if has_type child then traverse child visitor (Some node) path s else s)
      in traverseArray node rest visitor path s')"
  by pat_completeness auto
termination
  by (relation "measure (\<lambda>x. case x of
          Inl (node, _) \<Rightarrow> size node
        | Inr (Inl (_, ps, _)) \<Rightarrow> size_list (size_prod (\<lambda>_. 0) size) ps
        | Inr (Inr (_, xs, _)) \<Rightarrow> size_list size xs)") auto

text \<open>\<open>findNodes\<close>: the nodes of one type, pushed in the order they are entered.\<close>

definition findNodes :: "jsval \<Rightarrow> string \<Rightarrow> jsval list" where
  "findNodes a nodeType =
     traverse a [nodeType \<mapsto> Fn (\<lambda>node parent path found. (False, found @ [node]))] None [] []"

text \<open>\<open>findNode\<close>: the state is \<open>result\<close>.  The wildcard returns \<open>false\<close> once a
  node is found, which the walker ignores for a wildcard.\<close>

definition findNode :: "jsval \<Rightarrow> (jsval \<Rightarrow> bool) \<Rightarrow> jsval option" where
  "findNode a predicate =
     traverse a
       [''*'' \<mapsto> Fn (\<lambda>node parent path result.
          (if result \<noteq> None then (True, result)
           else if predicate node then (True, Some node)
           else (False, result)))]
       None [] None"

section \<open>Issues (shared issue types) and the analyser base class (analyzers/base-analyzer.ts)\<close>

datatype Severity = ERROR | WARNING | INFO

datatype IssueCategory =
  SECURITY | COMPLEXITY | CODE_SMELL | BUG | PERFORMANCE | BEST_PRACTICE | STYLE

text \<open>
  \<open>Issue\<close> with the properties \<open>SecurityIssue\<close> and \<open>ComplexityIssue\<close> add, which
  the analysers assign after the issue is created; \<open>None\<close> is a property that is not
  set.  The \<open>id\<close> is a fresh random UUID and is left out.
\<close>

record Issue =
  ruleId :: string
  message :: string
  severity :: Severity
  category :: IssueCategory
  location :: source_range
  issueFilePath :: string
  codeSnippet :: "string option"
  suggestions :: "string list option"
  vulnerability :: "string option"
  cwe :: "string option"
  owasp :: "string option"
  complexityScore :: "rat option"
  threshold :: "rat option"

text \<open>\<open>Partial<Issue>\<close>: the properties the \<open>options\<close> argument carries.\<close>

record IssueOptions =
  opt_ruleId :: "string option"
  opt_message :: "string option"
  opt_severity :: "Severity option"
  opt_category :: "IssueCategory option"
  opt_location :: "source_range option"
  opt_filePath :: "string option"
  opt_codeSnippet :: "string option"
  opt_suggestions :: "string list option"

definition no_options :: IssueOptions where
  "no_options = \<lparr>opt_ruleId = None, opt_message = None, opt_severity = None,
     opt_category = None, opt_location = None, opt_filePath = None, opt_codeSnippet = None,
     opt_suggestions = None\<rparr>"

definition origin :: position where
  "origin = \<lparr>line = 0, column = 0\<rparr>"

text \<open>\<open>createIssue\<close>: the object literal, then the spread of \<open>options\<close> over it.\<close>

definition createIssue ::
  "string \<Rightarrow> string \<Rightarrow> Severity \<Rightarrow> IssueCategory \<Rightarrow> jsval \<Rightarrow> string \<Rightarrow> IssueOptions \<Rightarrow> Issue" where
  "createIssue rule msg sev cat node path options =
     \<lparr>ruleId = (case opt_ruleId options of Some v \<Rightarrow> v | None \<Rightarrow> rule),
      message = (case opt_message options of Some v \<Rightarrow> v | None \<Rightarrow> msg),
      severity = (case opt_severity options of Some v \<Rightarrow> v | None \<Rightarrow> sev),
      category = (case opt_category options of Some v \<Rightarrow> v | None \<Rightarrow> cat),
      location =
        (case opt_location options of
           Some v \<Rightarrow> v
         | None \<Rightarrow>
             \<lparr>start = (case loc_of node of Some l \<Rightarrow> start l | None \<Rightarrow> origin),
              finish = (case loc_of node of Some l \<Rightarrow> finish l | None \<Rightarrow> origin)\<rparr>),
      issueFilePath = (case opt_filePath options of Some v \<Rightarrow> v | None \<Rightarrow> path),
      codeSnippet = opt_codeSnippet options,
      suggestions = opt_suggestions options,
      vulnerability = None, cwe = None, owasp = None,
      complexityScore = None, threshold = None\<rparr>"

text \<open>\<open>extractCodeSnippet\<close>, with its \<open>context\<close> argument (2 when the caller gives
  none).\<close>

definition extractCodeSnippet :: "string \<Rightarrow> jsval \<Rightarrow> int \<Rightarrow> string" where
  "extractCodeSnippet source node context =
     (case loc_of node of
        None \<Rightarrow> ''''
      | Some l \<Rightarrow>
          (let lines = split_lines source;
               startLine = max 0 (line (start l) - context - 1);
               endLine = min (int (length lines)) (line (finish l) + context)
           in join_lines (slice lines startLine endLine)))"

record AnalyzerContext =
  parseResult :: ParseResult
  contextIssues :: "Issue list"

text \<open>
  \<open>IAnalyzer\<close>.  The context gives \<open>analyze\<close> the parse result and the array
  \<open>issues\<close> themselves, not copies, and \<open>analyze\<close> can write to them.  So a call
  of \<open>analyze\<close> has two results: what it returns, the issues or the error it throws
  (\<open>Inl\<close>), and the content of the context, \<open>context.parseResult\<close> and
  \<open>context.issues\<close>, when it returns or throws.  An analyser is a function of the
  context: state of its own is not modelled.
\<close>

record IAnalyzer =
  name :: string
  analyzerCategory :: IssueCategory
  analyze :: "AnalyzerContext \<Rightarrow> (string + Issue list) \<times> AnalyzerContext"

text \<open>A callback \<open>(node) => { ... }\<close> that returns nothing.\<close>

definition on_node :: "(jsval \<Rightarrow> 's \<Rightarrow> 's) \<Rightarrow> 's visitor_entry" where
  "on_node f = Fn (\<lambda>node parent path s. (False, f node s))"

section \<open>Security analyser (analyzers/security-analyzer.ts)\<close>

text \<open>\<open>String(v)\<close> and the conversion inside a template string.\<close>

fun join_comma :: "string list \<Rightarrow> string" where
  "join_comma [] = []"
| "join_comma [l] = l"
| "join_comma (l # ls) = l @ '','' @ join_comma ls"

fun to_String :: "jsval \<Rightarrow> string" where
  "to_String JUndefined = ''undefined''"
| "to_String JNull = ''null''"
| "to_String (JBool b) = (if b then ''true'' else ''false'')"
| "to_String (JNum n) = show_number n"
| "to_String (JStr s) = s"
| "to_String (JArr xs) =
     join_comma (map (\<lambda>x. if x = JUndefined \<or> x = JNull then [] else to_String x) xs)"
| "to_String (JObj m ps) = ''[object Object]''"

text \<open>\<open>v.length\<close> of an array or a string; \<open>None\<close> is \<open>undefined\<close>.\<close>

fun js_length :: "jsval \<Rightarrow> nat option" where
  "js_length (JArr xs) = Some (length xs)"
| "js_length (JStr s) = Some (length s)"
| "js_length v = None"

text \<open>The three assignments after \<open>createIssue(...) as SecurityIssue\<close>.\<close>

definition as_SecurityIssue :: "Issue \<Rightarrow> string \<Rightarrow> string \<Rightarrow> string \<Rightarrow> Issue" where
  "as_SecurityIssue issue v c ow = issue\<lparr>vulnerability := Some v, cwe := Some c, owasp := Some ow\<rparr>"

definition snippet_options :: "string \<Rightarrow> jsval \<Rightarrow> int \<Rightarrow> string list \<Rightarrow> IssueOptions" where
  "snippet_options source node context sugg =
     no_options\<lparr>opt_codeSnippet := Some (extractCodeSnippet source node context),
                opt_suggestions := Some sugg\<rparr>"

lemma size_get_prop:
  "truthy (get_prop node key) \<Longrightarrow> key \<noteq> ''type'' \<Longrightarrow> size (get_prop node key) < size node"
proof (cases node)
  case (JObj m ps)
  assume t: "truthy (get_prop node key)" and k: "key \<noteq> ''type''"
  from t k JObj obtain v where v: "map_of ps key = Some v" "get_prop node key = v"
    by (auto split: option.splits)
  then have "(key, v) \<in> set ps"
    by (simp add: map_of_SomeD)
  then have "size v < size_list (size_prod (\<lambda>_. 0) size) ps"
    by (induction ps) auto
  with v JObj show ?thesis
    by simp
qed auto

function containsStringLiteral :: "jsval \<Rightarrow> bool" where
  "containsStringLiteral node =
     (if type_of node = Some ''StringLiteral'' \<or> type_of node = Some ''Literal'' then True
      else if (if truthy (get_prop node ''left'')
               then containsStringLiteral (get_prop node ''left'') else False) then True
      else if (if truthy (get_prop node ''right'')
               then containsStringLiteral (get_prop node ''right'') else False) then True
      else False)"
  by pat_completeness auto
termination
  by (relation "measure size") (auto intro: size_get_prop)

declare containsStringLiteral.simps [simp del]

definition getNodeCode :: "jsval \<Rightarrow> string \<Rightarrow> string" where
  "getNodeCode node source =
     (if \<not> truthy node then ''''
      else if type_of node = Some ''StringLiteral'' \<and> truthy (get_prop node ''value'')
        then to_String (get_prop node ''value'')
      else if type_of node = Some ''Literal'' \<and> truthy (get_prop node ''value'')
        then to_String (get_prop node ''value'')
      else if type_of node = Some ''Identifier''
        then (if truthy (get_prop node ''name'') then to_String (get_prop node ''name'') else '''')
      else (case range_of node of
              Some (a, b) \<Rightarrow> substring source a b
            | None \<Rightarrow> ''''))"

definition checkSQLInjectionInExpression ::
  "jsval \<Rightarrow> string \<Rightarrow> string \<Rightarrow> Issue list \<Rightarrow> Issue list" where
  "checkSQLInjectionInExpression node path source issues =
     (if get_prop node ''operator'' = JStr ''+'' then
        (let hasStringLiteral = containsStringLiteral node in
         if hasStringLiteral then
           (let leftCode = getNodeCode (get_prop node ''left'') source;
                rightCode = getNodeCode (get_prop node ''right'') source;
                combinedCode = toUpperCase (leftCode @ '' '' @ rightCode);
                sqlKeywords = [''SELECT'', ''INSERT'', ''UPDATE'', ''DELETE'', ''FROM'',
                               ''WHERE'', ''DROP'', ''CREATE''];
                hasSQLKeyword = list_ex (\<lambda>keyword. str_includes combinedCode keyword) sqlKeywords
            in if hasSQLKeyword then
                 issues @ [as_SecurityIssue
                   (createIssue ''sql-injection''
                      ''SQL query uses string concatenation. This is vulnerable to SQL injection.''
                      ERROR SECURITY node path
                      (snippet_options source node 2
                         [''Use parameterized queries or prepared statements'']))
                   ''SQL Injection'' ''CWE-89'' ''A03:2021 - Injection'']
               else issues)
         else issues)
      else issues)"

text \<open>\<open>quasi.value?.raw?.toUpperCase().includes(keyword)\<close> for the \<open>raw\<close> string of a
  template element (a missing \<open>raw\<close> ends the chain with \<open>undefined\<close>).\<close>

definition quasi_has_keyword :: "jsval \<Rightarrow> string \<Rightarrow> bool" where
  "quasi_has_keyword quasi keyword =
     (case get_prop (get_prop quasi ''value'') ''raw'' of
        JStr raw \<Rightarrow> str_includes (toUpperCase raw) keyword
      | _ \<Rightarrow> False)"

definition checkSQLInjection ::
  "jsval \<Rightarrow> string \<Rightarrow> string \<Rightarrow> Issue list \<Rightarrow> Issue list" where
  "checkSQLInjection node path source issues =
     (let calleeName = get_prop (get_prop (get_prop node ''callee'') ''property'') ''name'' in
      if calleeName = JStr ''query'' \<or> calleeName = JStr ''execute'' then
        (let firstArg = first_element (get_prop node ''arguments'');
             issues1 =
               (if type_of firstArg = Some ''TemplateLiteral''
                   \<and> (case js_length (get_prop firstArg ''expressions'') of
                         Some n \<Rightarrow> n > 0 | None \<Rightarrow> False) then
                  (let sqlKeywords = [''SELECT'', ''INSERT'', ''UPDATE'', ''DELETE'', ''FROM'',
                                      ''WHERE''];
                       hasSQL = list_ex (\<lambda>quasi. list_ex (quasi_has_keyword quasi) sqlKeywords)
                                  (elements (get_prop firstArg ''quasis''))
                   in if hasSQL then
                        issues @ [as_SecurityIssue
                          (createIssue ''sql-injection''
                             ''Potential SQL injection vulnerability. Use parameterized queries instead.''
                             ERROR SECURITY node path
                             (snippet_options source node 2
                                [''Use parameterized queries or prepared statements'']))
                          ''SQL Injection'' ''CWE-89'' ''A03:2021 - Injection'']
                      else issues)
                else issues)
         in if type_of firstArg = Some ''BinaryExpression''
               \<and> get_prop firstArg ''operator'' = JStr ''+'' then
              issues1 @ [as_SecurityIssue
                (createIssue ''sql-injection''
                   ''SQL query uses string concatenation. This is vulnerable to SQL injection.''
                   ERROR SECURITY node path
                   (snippet_options source node 2
                      [''Use parameterized queries instead of string concatenation'']))
                ''SQL Injection'' ''CWE-89'' ''A03:2021 - Injection'']
            else issues1)
      else issues)"

definition checkCommandInjection ::
  "jsval \<Rightarrow> string \<Rightarrow> string \<Rightarrow> Issue list \<Rightarrow> Issue list" where
  "checkCommandInjection node path source issues =
     (let dangerousFunctions = [''exec'', ''execSync'', ''spawn'', ''spawnSync'', ''execFile''];
          funcName = (if truthy (get_prop (get_prop node ''callee'') ''name'')
                      then get_prop (get_prop node ''callee'') ''name''
                      else get_prop (get_prop (get_prop node ''callee'') ''property'') ''name'')
      in if funcName \<in> set (map JStr dangerousFunctions) then
           (let firstArg = first_element (get_prop node ''arguments'') in
            if type_of firstArg = Some ''TemplateLiteral''
               \<or> (type_of firstArg = Some ''BinaryExpression''
                   \<and> get_prop firstArg ''operator'' = JStr ''+'') then
              issues @ [as_SecurityIssue
                (createIssue ''command-injection''
                   ''Potential command injection vulnerability. Avoid using user input in system commands.''
                   ERROR SECURITY node path
                   (snippet_options source node 2
                      [''Validate and sanitize all inputs'',
                       ''Use safer alternatives like spawn with array arguments'']))
                ''Command Injection'' ''CWE-78'' ''A03:2021 - Injection'']
            else issues)
         else issues)"

definition checkXSS :: "jsval \<Rightarrow> string \<Rightarrow> string \<Rightarrow> Issue list \<Rightarrow> Issue list" where
  "checkXSS node path source issues =
     (if get_prop (get_prop node ''name'') ''name'' = JStr ''dangerouslySetInnerHTML'' then
        issues @ [as_SecurityIssue
          (createIssue ''xss-danger''
             ''Using dangerouslySetInnerHTML can lead to XSS vulnerabilities.''
             WARNING SECURITY node path
             (snippet_options source node 2
                [''Sanitize HTML before rendering'', ''Use DOMPurify or similar library'']))
          ''Cross-Site Scripting (XSS)'' ''CWE-79'' ''A03:2021 - Injection'']
      else issues)"

text \<open>The four patterns of \<open>checkHardcodedSecrets\<close>, each with its name and its
  \<open>minLength\<close>, in the order of the array.\<close>

text \<open>\<open>/^sk_live_[a-zA-Z0-9]{20,}$/i\<close>\<close>

definition matches_stripe_key :: "string \<Rightarrow> bool" where
  "matches_stripe_key v =
     (toLowerCase (take 8 v) = ''sk_live_'' \<and> 20 \<le> length (drop 8 v) \<and> list_all alnum (drop 8 v))"

text \<open>\<open>/^[a-zA-Z0-9]{32,}$/\<close>\<close>

definition matches_long_token :: "string \<Rightarrow> bool" where
  "matches_long_token v = (32 \<le> length v \<and> list_all alnum v)"

text \<open>\<open>/-----BEGIN.*PRIVATE KEY-----/\<close>: the dot does not match a line terminator, so
  the second part has to follow on the line of the first.\<close>

fun matches_private_key :: "string \<Rightarrow> bool" where
  "matches_private_key [] = False"
| "matches_private_key (c # cs) =
     ((is_prefix ''-----BEGIN'' (c # cs)
        \<and> str_includes
             (takeWhile (\<lambda>x. x \<noteq> newline \<and> x \<noteq> carriage_return) (drop 10 (c # cs)))
             ''PRIVATE KEY-----'')
      \<or> matches_private_key cs)"

text \<open>\<open>/password|secret|token/i\<close>\<close>

definition matches_secret_word :: "string \<Rightarrow> bool" where
  "matches_secret_word v =
     list_ex (\<lambda>w. str_includes (toLowerCase v) w) [''password'', ''secret'', ''token'']"

definition secretPatterns :: "((string \<Rightarrow> bool) \<times> string \<times> nat option) list" where
  "secretPatterns =
     [(matches_stripe_key, ''API Key (Stripe-like)'', None),
      (matches_long_token, ''Long API Key or Token'', None),
      (matches_private_key, ''Private Key'', None),
      (matches_secret_word, ''Potential Secret'', Some 15)]"

text \<open>The loop over the patterns, which stops at the first one that matches.\<close>

fun secret_loop ::
  "((string \<Rightarrow> bool) \<times> string \<times> nat option) list \<Rightarrow> string \<Rightarrow> jsval \<Rightarrow> string \<Rightarrow> string
     \<Rightarrow> Issue list \<Rightarrow> Issue list" where
  "secret_loop [] v node path source issues = issues"
| "secret_loop ((regex, pname, minLen) # rest) v node path source issues =
     (let minLength = (case minLen of Some n \<Rightarrow> (if n = 0 then length v else n)
                                     | None \<Rightarrow> length v)
      in if regex v \<and> length v \<ge> minLength then
           issues @ [as_SecurityIssue
             (createIssue ''hardcoded-secret''
                (''Potential hardcoded '' @ pname
                   @ '' detected. Store secrets in environment variables or secure vaults.'')
                ERROR SECURITY node path
                (snippet_options source node 2
                   [''Use environment variables (process.env)'',
                    ''Use a secrets management service'']))
             ''Hardcoded Secrets'' ''CWE-798''
             ''A07:2021 - Identification and Authentication Failures'']
         else secret_loop rest v node path source issues)"

definition checkHardcodedSecrets ::
  "jsval \<Rightarrow> string \<Rightarrow> string \<Rightarrow> Issue list \<Rightarrow> Issue list" where
  "checkHardcodedSecrets node path source issues =
     (case get_prop node ''value'' of
        JStr v \<Rightarrow> if length v < 8 then issues
                  else secret_loop secretPatterns v node path source issues
      | _ \<Rightarrow> issues)"

definition checkDangerousFunctions ::
  "jsval \<Rightarrow> string \<Rightarrow> string \<Rightarrow> Issue list \<Rightarrow> Issue list" where
  "checkDangerousFunctions node path source issues =
     (let dangerousFunctions = [''eval'', ''Function'', ''setTimeout'', ''setInterval''] in
      if get_prop node ''name'' \<in> set (map JStr dangerousFunctions) then
        issues @ [as_SecurityIssue
          (createIssue ''dangerous-function''
             (''Using '' @ to_String (get_prop node ''name'')
                @ '' with dynamic code can lead to code injection vulnerabilities.'')
             WARNING SECURITY node path
             (snippet_options source node 2
                [''Avoid using eval and similar functions'', ''Use safer alternatives'']))
          ''Code Injection'' ''CWE-94'' ''A03:2021 - Injection'']
      else issues)"

definition security_visitor :: "string \<Rightarrow> string \<Rightarrow> (Issue list) Visitor" where
  "security_visitor path source = map_of
     [(''CallExpression'', on_node (\<lambda>node issues.
          checkCommandInjection node path source (checkSQLInjection node path source issues))),
      (''BinaryExpression'', on_node (\<lambda>node. checkSQLInjectionInExpression node path source)),
      (''JSXAttribute'', on_node (\<lambda>node. checkXSS node path source)),
      (''StringLiteral'', on_node (\<lambda>node. checkHardcodedSecrets node path source)),
      (''Literal'', on_node (\<lambda>node. checkHardcodedSecrets node path source)),
      (''Identifier'', on_node (\<lambda>node. checkDangerousFunctions node path source))]"

definition SecurityAnalyzer_analyze :: "AnalyzerContext \<Rightarrow> Issue list" where
  "SecurityAnalyzer_analyze context =
     traverse (ast (parseResult context))
       (security_visitor (filePath (parseResult context)) (sourceCode (parseResult context)))
       None [] []"

section \<open>Complexity analyser (analyzers/complexity-analyzer.ts)\<close>

definition CYCLOMATIC_THRESHOLD :: int where "CYCLOMATIC_THRESHOLD = 10"
definition COGNITIVE_THRESHOLD :: int where "COGNITIVE_THRESHOLD = 15"
definition NESTING_THRESHOLD :: int where "NESTING_THRESHOLD = 4"
definition FUNCTION_LENGTH_THRESHOLD :: int where "FUNCTION_LENGTH_THRESHOLD = 50"

record ComplexityResult =
  cyclomaticComplexity :: int
  cognitiveComplexity :: int
  nestingDepth :: int
  maxNesting :: int

text \<open>\<open>calculateCyclomaticComplexity\<close>: the state is the counter \<open>complexity\<close>.  The
  callbacks \<open>() => complexity++\<close> return a number, never \<open>false\<close>.\<close>

definition cyclomatic_visitor :: "int Visitor" where
  "cyclomatic_visitor = map_of
     [(''IfStatement'', on_node (\<lambda>node c. c + 1)),
      (''ConditionalExpression'', on_node (\<lambda>node c. c + 1)),
      (''ForStatement'', on_node (\<lambda>node c. c + 1)),
      (''ForInStatement'', on_node (\<lambda>node c. c + 1)),
      (''ForOfStatement'', on_node (\<lambda>node c. c + 1)),
      (''WhileStatement'', on_node (\<lambda>node c. c + 1)),
      (''DoWhileStatement'', on_node (\<lambda>node c. c + 1)),
      (''SwitchCase'', on_node (\<lambda>caseNode c. if truthy (get_prop caseNode ''test'') then c + 1 else c)),
      (''CatchClause'', on_node (\<lambda>node c. c + 1)),
      (''LogicalExpression'', on_node (\<lambda>logicalNode c.
          if get_prop logicalNode ''operator'' = JStr ''&&''
             \<or> get_prop logicalNode ''operator'' = JStr ''||'' then c + 1 else c))]"

definition calculateCyclomaticComplexity :: "jsval \<Rightarrow> int" where
  "calculateCyclomaticComplexity node = traverse node cyclomatic_visitor None [] 1"

definition incrementors :: "string list" where
  "incrementors = [''IfStatement'', ''ConditionalExpression'', ''ForStatement'',
     ''ForInStatement'', ''ForOfStatement'', ''WhileStatement'', ''DoWhileStatement'',
     ''SwitchCase'', ''CatchClause'']"

text \<open>\<open>incrementors.includes(astNode.type)\<close>\<close>

definition type_in :: "jsval \<Rightarrow> string list \<Rightarrow> bool" where
  "type_in astNode names = (case type_of astNode of Some t \<Rightarrow> t \<in> set names | None \<Rightarrow> False)"

text \<open>\<open>calculateCognitiveComplexity\<close>: the state is the pair of \<open>complexity\<close> and
  \<open>nestingLevel\<close>.  The visitor object has the key \<open>*\<close> bound to an object with
  \<open>enter\<close> and \<open>exit\<close>, and the key \<open>LogicalExpression\<close> bound to a function.\<close>

definition cognitive_visitor :: "(int \<times> int) Visitor" where
  "cognitive_visitor = map_of
     [(''*'', EnterExit
         (Some (\<lambda>astNode parent path (complexity, nestingLevel).
            (False, if type_in astNode incrementors
                    then (complexity + (1 + nestingLevel), nestingLevel + 1)
                    else (complexity, nestingLevel))))
         (Some (\<lambda>astNode parent path (complexity, nestingLevel).
            (False, if type_in astNode incrementors
                    then (complexity, nestingLevel - 1)
                    else (complexity, nestingLevel))))),
      (''LogicalExpression'', on_node (\<lambda>logicalNode (complexity, nestingLevel).
          if get_prop logicalNode ''operator'' = JStr ''&&''
             \<or> get_prop logicalNode ''operator'' = JStr ''||''
          then (complexity + 1, nestingLevel) else (complexity, nestingLevel)))]"

definition calculateCognitiveComplexity :: "jsval \<Rightarrow> int" where
  "calculateCognitiveComplexity node = fst (traverse node cognitive_visitor None [] (0, 0))"

definition nestingNodes :: "string list" where
  "nestingNodes = [''IfStatement'', ''ForStatement'', ''ForInStatement'', ''ForOfStatement'',
     ''WhileStatement'', ''DoWhileStatement'', ''TryStatement'', ''SwitchStatement'']"

text \<open>\<open>calculateNestingDepth\<close>: the state is the pair of \<open>maxDepth\<close> and
  \<open>currentDepth\<close>.\<close>

definition nesting_visitor :: "(int \<times> int) Visitor" where
  "nesting_visitor = map_of
     [(''*'', EnterExit
         (Some (\<lambda>astNode parent path (maxDepth, currentDepth).
            (False, if type_in astNode nestingNodes
                    then (max maxDepth (currentDepth + 1), currentDepth + 1)
                    else (maxDepth, currentDepth))))
         (Some (\<lambda>astNode parent path (maxDepth, currentDepth).
            (False, if type_in astNode nestingNodes
                    then (maxDepth, currentDepth - 1)
                    else (maxDepth, currentDepth)))))]"

definition calculateNestingDepth :: "jsval \<Rightarrow> int" where
  "calculateNestingDepth node = fst (traverse node nesting_visitor None [] (0, 0))"

definition calculateComplexity :: "jsval \<Rightarrow> ComplexityResult" where
  "calculateComplexity node =
     \<lparr>cyclomaticComplexity = calculateCyclomaticComplexity node,
      cognitiveComplexity = calculateCognitiveComplexity node,
      nestingDepth = calculateNestingDepth node,
      maxNesting = calculateNestingDepth node\<rparr>"

definition getFunctionName :: "jsval \<Rightarrow> string" where
  "getFunctionName node =
     (if truthy (get_prop (get_prop node ''id'') ''name'')
        then to_String (get_prop (get_prop node ''id'') ''name'')
      else if truthy (get_prop (get_prop node ''key'') ''name'')
        then to_String (get_prop (get_prop node ''key'') ''name'')
      else ''<anonymous>'')"

text \<open>The two assignments after \<open>createIssue(...) as ComplexityIssue\<close>.\<close>

definition as_ComplexityIssue :: "Issue \<Rightarrow> int \<Rightarrow> int \<Rightarrow> Issue" where
  "as_ComplexityIssue issue score thr =
     issue\<lparr>complexityScore := Some (of_int score), threshold := Some (of_int thr)\<rparr>"

definition quoted :: "string \<Rightarrow> string" where
  "quoted s = [CHR 0x22] @ s @ [CHR 0x22]"

definition analyzeFunctionComplexity ::
  "jsval \<Rightarrow> string \<Rightarrow> string \<Rightarrow> Issue list \<Rightarrow> Issue list" where
  "analyzeFunctionComplexity node path source issues0 =
     (let functionName = getFunctionName node;
          complexity = calculateComplexity node;
          issues1 =
            (if cyclomaticComplexity complexity > CYCLOMATIC_THRESHOLD then
               issues0 @ [as_ComplexityIssue
                 (createIssue ''high-cyclomatic-complexity''
                    (''Function '' @ quoted functionName @ '' has cyclomatic complexity of ''
                       @ show_int (cyclomaticComplexity complexity) @ '' (threshold: ''
                       @ show_int CYCLOMATIC_THRESHOLD
                       @ ''). Consider breaking it into smaller functions.'')
                    WARNING COMPLEXITY node path
                    (snippet_options source node 2
                       [''Break down into smaller functions'',
                        ''Extract complex conditionals into separate functions'']))
                 (cyclomaticComplexity complexity) CYCLOMATIC_THRESHOLD]
             else issues0);
          issues2 =
            (if cognitiveComplexity complexity > COGNITIVE_THRESHOLD then
               issues1 @ [as_ComplexityIssue
                 (createIssue ''high-cognitive-complexity''
                    (''Function '' @ quoted functionName @ '' has cognitive complexity of ''
                       @ show_int (cognitiveComplexity complexity) @ '' (threshold: ''
                       @ show_int COGNITIVE_THRESHOLD
                       @ ''). This function may be hard to understand.'')
                    WARNING COMPLEXITY node path
                    (snippet_options source node 2
                       [''Simplify logic'', ''Reduce nesting levels'',
                        ''Extract complex conditions'']))
                 (cognitiveComplexity complexity) COGNITIVE_THRESHOLD]
             else issues1);
          issues3 =
            (if maxNesting complexity > NESTING_THRESHOLD then
               issues2 @ [as_ComplexityIssue
                 (createIssue ''excessive-nesting''
                    (''Function '' @ quoted functionName @ '' has maximum nesting depth of ''
                       @ show_int (maxNesting complexity) @ '' (threshold: ''
                       @ show_int NESTING_THRESHOLD
                       @ ''). Deep nesting makes code harder to read.'')
                    WARNING COMPLEXITY node path
                    (snippet_options source node 2
                       [''Use early returns to reduce nesting'',
                        ''Extract nested logic into separate functions'']))
                 (maxNesting complexity) NESTING_THRESHOLD]
             else issues2)
      in (case loc_of node of
            Some l \<Rightarrow>
              (let len = line (finish l) - line (start l) in
               if len > FUNCTION_LENGTH_THRESHOLD then
                 issues3 @ [as_ComplexityIssue
                   (createIssue ''long-function''
                      (''Function '' @ quoted functionName @ '' is '' @ show_int len
                         @ '' lines long (threshold: '' @ show_int FUNCTION_LENGTH_THRESHOLD
                         @ ''). Long functions are harder to maintain.'')
                      INFO COMPLEXITY node path
                      (snippet_options source node 1
                         [''Break into smaller, focused functions'',
                          ''Apply Single Responsibility Principle'']))
                   len FUNCTION_LENGTH_THRESHOLD]
               else issues3)
          | None \<Rightarrow> issues3))"

definition complexity_visitor :: "string \<Rightarrow> string \<Rightarrow> (Issue list) Visitor" where
  "complexity_visitor path source = map_of
     [(''FunctionDeclaration'', on_node (\<lambda>node. analyzeFunctionComplexity node path source)),
      (''FunctionExpression'', on_node (\<lambda>node. analyzeFunctionComplexity node path source)),
      (''ArrowFunctionExpression'', on_node (\<lambda>node. analyzeFunctionComplexity node path source)),
      (''MethodDefinition'', on_node (\<lambda>node issues0.
          if truthy (get_prop node ''value'')
          then analyzeFunctionComplexity (get_prop node ''value'') path source issues0
          else issues0))]"

definition ComplexityAnalyzer_analyze :: "AnalyzerContext \<Rightarrow> Issue list" where
  "ComplexityAnalyzer_analyze context =
     traverse (ast (parseResult context))
       (complexity_visitor (filePath (parseResult context)) (sourceCode (parseResult context)))
       None [] []"

section \<open>Code quality analyser (analyzers/code-quality-analyzer.ts)\<close>

text \<open>The state of the traversal: the issues, and the two sets of names, which are
  \<open>Set<string>\<close> and keep the order in which the names were added.\<close>

record quality_state =
  found :: "Issue list"
  declaredVariables :: "string list"
  usedVariables :: "string list"

definition set_add :: "string list \<Rightarrow> string \<Rightarrow> string list" where
  "set_add xs x = (if x \<in> set xs then xs else xs @ [x])"

text \<open>\<open>if (v) set.add(v)\<close> for a name \<open>v\<close>, a string.\<close>

definition add_name :: "jsval \<Rightarrow> string list \<Rightarrow> string list" where
  "add_name v xs = (case v of JStr n \<Rightarrow> (if n \<noteq> [] then set_add xs n else xs) | _ \<Rightarrow> xs)"

definition declare_params :: "jsval \<Rightarrow> string list \<Rightarrow> string list" where
  "declare_params node declared =
     foldl (\<lambda>acc param. add_name (get_prop param ''name'') acc) declared
       (elements (get_prop node ''params''))"

definition checkMagicNumbers ::
  "jsval \<Rightarrow> string \<Rightarrow> string \<Rightarrow> Issue list \<Rightarrow> Issue list" where
  "checkMagicNumbers node path source issues0 =
     (case get_prop node ''value'' of
        JNum v \<Rightarrow>
          (let ignoredValues = [0, 1, -1, 2, 10, 100] in
           if v \<in> set ignoredValues then issues0
           else if type_of (get_prop node ''parent'') = Some ''MemberExpression'' then issues0
           else issues0 @ [createIssue ''magic-number''
                  (''Magic number '' @ show_number v @ '' should be replaced with a named constant.'')
                  INFO CODE_SMELL node path
                  (snippet_options source node 2
                     [''Create a named constant like: const MEANINGFUL_NAME = '' @ show_number v])])
      | _ \<Rightarrow> issues0)"

definition checkLongParameterList ::
  "jsval \<Rightarrow> string \<Rightarrow> string \<Rightarrow> Issue list \<Rightarrow> Issue list" where
  "checkLongParameterList node path source issues0 =
     (let MAX_PARAMS = 4;
          params = (if truthy (get_prop node ''params'') then get_prop node ''params'' else JArr [])
      in (case js_length params of
            Some n \<Rightarrow>
              if n > MAX_PARAMS then
                (let functionName =
                       (if truthy (get_prop (get_prop node ''id'') ''name'')
                        then to_String (get_prop (get_prop node ''id'') ''name'')
                        else ''<anonymous>'')
                 in issues0 @ [createIssue ''long-parameter-list''
                      (''Function '' @ [CHR 0x27] @ functionName @ [CHR 0x27] @ '' has ''
                         @ show_nat n @ '' parameters (max: '' @ show_nat MAX_PARAMS
                         @ ''). Consider using an options object.'')
                      INFO CODE_SMELL node path
                      (snippet_options source node 1
                         [''Combine related parameters into an options object'',
                          ''Break function into smaller functions''])])
              else issues0
          | None \<Rightarrow> issues0))"

definition checkEmptyCatchBlock ::
  "jsval \<Rightarrow> string \<Rightarrow> string \<Rightarrow> Issue list \<Rightarrow> Issue list" where
  "checkEmptyCatchBlock node path source issues0 =
     (let catchBody = (if truthy (get_prop (get_prop node ''body'') ''body'')
                       then get_prop (get_prop node ''body'') ''body'' else JArr [])
      in if js_length catchBody = Some 0 then
           issues0 @ [createIssue ''empty-catch-block''
             ''Empty catch block. Silent failures can hide bugs.''
             WARNING CODE_SMELL node path
             (snippet_options source node 2
                [''Log the error'', ''Handle the error appropriately'',
                 ''Rethrow if cannot handle''])]
         else issues0)"

definition checkConsoleStatements ::
  "jsval \<Rightarrow> string \<Rightarrow> string \<Rightarrow> Issue list \<Rightarrow> Issue list" where
  "checkConsoleStatements node path source issues0 =
     (let callee = get_prop node ''callee'' in
      if get_prop (get_prop callee ''object'') ''name'' = JStr ''console''
         \<and> get_prop (get_prop callee ''property'') ''name''
             \<in> set (map JStr [''log'', ''debug'', ''info'', ''warn'', ''error'']) then
        issues0 @ [createIssue ''console-statement''
          (''Console statement found: console.''
             @ to_String (get_prop (get_prop callee ''property'') ''name'')
             @ ''(). Remove before production.'')
          INFO CODE_SMELL node path
          (snippet_options source node 2
             [''Use a proper logging library'',
              ''Remove console statements before deployment''])]
      else issues0)"

definition checkDebuggerStatements ::
  "jsval \<Rightarrow> string \<Rightarrow> string \<Rightarrow> Issue list \<Rightarrow> Issue list" where
  "checkDebuggerStatements node path source issues0 =
     (if type_of node = Some ''DebuggerStatement'' then
        issues0 @ [createIssue ''debugger-statement''
          ''Debugger statement found. Remove before production.''
          WARNING CODE_SMELL node path
          (snippet_options source node 2 [''Remove debugger statement''])]
      else issues0)"

definition is_space :: "char \<Rightarrow> bool" where
  "is_space c = (let n = (of_char c :: nat) in n = 32 \<or> (9 \<le> n \<and> n \<le> 13))"

definition trim :: "string \<Rightarrow> string" where
  "trim s = rev (dropWhile is_space (rev (dropWhile is_space s)))"

text \<open>\<open>/TODO|FIXME|HACK|XXX/i\<close>\<close>

definition matches_marker :: "string \<Rightarrow> bool" where
  "matches_marker v =
     list_ex (\<lambda>w. str_includes (toUpperCase v) w) [''TODO'', ''FIXME'', ''HACK'', ''XXX'']"

definition checkTodoComments ::
  "jsval \<Rightarrow> string \<Rightarrow> string \<Rightarrow> Issue list \<Rightarrow> Issue list" where
  "checkTodoComments node path source issues0 =
     (let comments =
            (if truthy (get_prop node ''leadingComments'') then get_prop node ''leadingComments''
             else if truthy (get_prop node ''trailingComments'')
               then get_prop node ''trailingComments''
             else JArr [])
      in foldl (\<lambda>acc comment.
           if truthy (get_prop comment ''value'')
              \<and> matches_marker (to_String (get_prop comment ''value'')) then
             acc @ [createIssue ''todo-comment''
               (''TODO/FIXME comment found: '' @ quoted (trim (to_String (get_prop comment ''value'')))
                  @ ''. Consider creating a task.'')
               INFO CODE_SMELL node path
               (no_options\<lparr>opt_suggestions :=
                  Some [''Create a task in your issue tracker'', ''Address the TODO item'']\<rparr>)]
           else acc)
         issues0 (elements comments))"

definition quality_visitor :: "string \<Rightarrow> string \<Rightarrow> quality_state Visitor" where
  "quality_visitor path source = map_of
     [(''VariableDeclarator'', on_node (\<lambda>node st.
          st\<lparr>declaredVariables :=
               add_name (get_prop (get_prop node ''id'') ''name'') (declaredVariables st)\<rparr>)),
      (''FunctionDeclaration'', on_node (\<lambda>node st.
          st\<lparr>declaredVariables := declare_params node (declaredVariables st),
             found := checkLongParameterList node path source (found st)\<rparr>)),
      (''FunctionExpression'', on_node (\<lambda>node st.
          st\<lparr>declaredVariables := declare_params node (declaredVariables st),
             found := checkLongParameterList node path source (found st)\<rparr>)),
      (''ArrowFunctionExpression'', on_node (\<lambda>node st.
          st\<lparr>declaredVariables := declare_params node (declaredVariables st)\<rparr>)),
      (''Identifier'', on_node (\<lambda>node st.
          st\<lparr>usedVariables := add_name (get_prop node ''name'') (usedVariables st)\<rparr>)),
      (''Literal'', on_node (\<lambda>node st.
          st\<lparr>found := checkMagicNumbers node path source (found st)\<rparr>)),
      (''CatchClause'', on_node (\<lambda>node st.
          st\<lparr>found := checkEmptyCatchBlock node path source (found st)\<rparr>)),
      (''CallExpression'', on_node (\<lambda>node st.
          st\<lparr>found := checkDebuggerStatements node path source
                        (checkConsoleStatements node path source (found st))\<rparr>)),
      (''*'', on_node (\<lambda>node st.
          st\<lparr>found := checkTodoComments node path source (found st)\<rparr>))]"

text \<open>\<open>variable.startsWith('_')\<close>\<close>

definition startsWith_underscore :: "string \<Rightarrow> bool" where
  "startsWith_underscore variable = is_prefix ''_'' variable"

text \<open>The loop over \<open>declaredVariables\<close> after the traversal.\<close>

definition unused_variable_step ::
  "jsval \<Rightarrow> string \<Rightarrow> string list \<Rightarrow> Issue list \<Rightarrow> string \<Rightarrow> Issue list" where
  "unused_variable_step a path used issues0 variable =
     (if variable \<notin> set used \<and> \<not> startsWith_underscore variable then
        (case findNode a (\<lambda>n. get_prop (get_prop n ''id'') ''name'' = JStr variable
                              \<or> get_prop n ''name'' = JStr variable) of
           Some nodes \<Rightarrow>
             issues0 @ [createIssue ''unused-variable''
               (''Variable '' @ [CHR 0x27] @ variable @ [CHR 0x27] @ '' is declared but never used.'')
               WARNING CODE_SMELL nodes path
               (no_options\<lparr>opt_suggestions :=
                  Some [''Remove the unused variable'',
                        ''If intentional, prefix with underscore: _'' @ variable]\<rparr>)]
         | None \<Rightarrow> issues0)
      else issues0)"

definition CodeQualityAnalyzer_analyze :: "AnalyzerContext \<Rightarrow> Issue list" where
  "CodeQualityAnalyzer_analyze context =
     (let a = ast (parseResult context);
          path = filePath (parseResult context);
          source = sourceCode (parseResult context);
          st = traverse a (quality_visitor path source) None []
                 \<lparr>found = [], declaredVariables = [], usedVariables = []\<rparr>
      in foldl (unused_variable_step a path (usedVariables st)) (found st) (declaredVariables st))"

section \<open>Analyser coordinator (the \<open>AnalyzerCoordinator\<close> class)\<close>

record FileInfo =
  infoPath :: string
  infoLanguage :: string
  infoSize :: nat
  linesOfCode :: nat

record FileMetrics =
  complexity :: rat
  maintainability :: rat
  metricsLinesOfCode :: nat

record FileAnalysisResult =
  resultFile :: FileInfo
  resultIssues :: "Issue list"
  resultSuggestions :: "string list"
  metrics :: FileMetrics

text \<open>The three analysers of the constructor only read the context: it is as they
  received it.\<close>

definition SecurityAnalyzer :: IAnalyzer where
  "SecurityAnalyzer = \<lparr>name = ''SecurityAnalyzer'', analyzerCategory = SECURITY,
     analyze = (\<lambda>context. (Inr (SecurityAnalyzer_analyze context), context))\<rparr>"

definition ComplexityAnalyzer :: IAnalyzer where
  "ComplexityAnalyzer = \<lparr>name = ''ComplexityAnalyzer'', analyzerCategory = COMPLEXITY,
     analyze = (\<lambda>context. (Inr (ComplexityAnalyzer_analyze context), context))\<rparr>"

definition CodeQualityAnalyzer :: IAnalyzer where
  "CodeQualityAnalyzer = \<lparr>name = ''CodeQualityAnalyzer'', analyzerCategory = CODE_SMELL,
     analyze = (\<lambda>context. (Inr (CodeQualityAnalyzer_analyze context), context))\<rparr>"

text \<open>The coordinator is its list of analysers: the constructor's three, and what
  \<open>addAnalyzer\<close> pushed after them.\<close>

definition new_AnalyzerCoordinator :: "IAnalyzer list" where
  "new_AnalyzerCoordinator = [SecurityAnalyzer, ComplexityAnalyzer, CodeQualityAnalyzer]"


text \<open>
  The loop of \<open>analyzeFile\<close>.  The context holds the parse result that
  \<open>analyzeFile\<close> was given and the array \<open>issues\<close> that the loop pushes to and that
  \<open>analyzeFile\<close> returns: an analyser sees the issues found so far, and what it writes
  to the context stays there, also when it throws.  The issues it returns are pushed
  after that.  The second component of the state is what \<open>console.error\<close> printed.
\<close>

fun run_analyzers ::
  "IAnalyzer list \<Rightarrow> AnalyzerContext \<times> (string \<times> string) list
     \<Rightarrow> AnalyzerContext \<times> (string \<times> string) list" where
  "run_analyzers [] (context, console) = (context, console)"
| "run_analyzers (analyzer # rest) (context, console) =
     (case analyze analyzer context of
        (Inr analyzerIssues, context1) \<Rightarrow>
          run_analyzers rest
            (context1\<lparr>contextIssues := contextIssues context1 @ analyzerIssues\<rparr>, console)
      | (Inl error, context1) \<Rightarrow>
          run_analyzers rest
            (context1, console @ [(''Error running '' @ name analyzer @ '':'', error)]))"

text \<open>The context after the loop: \<open>parseResult\<close> and \<open>issues\<close> as the rest of
  \<open>analyzeFile\<close>, and its caller, find them.\<close>

definition context_after :: "IAnalyzer list \<Rightarrow> ParseResult \<Rightarrow> AnalyzerContext" where
  "context_after analyzers pr =
     fst (run_analyzers analyzers (\<lparr>parseResult = pr, contextIssues = []\<rparr>, []))"

text \<open>\<open>calculateFileMetrics\<close>; \<open>i.complexityScore || 0\<close> is 0 for an issue without a
  score.\<close>

definition score_or_zero :: "Issue \<Rightarrow> rat" where
  "score_or_zero i = (case complexityScore i of Some v \<Rightarrow> v | None \<Rightarrow> 0)"

definition calculateFileMetrics :: "ParseResult \<Rightarrow> Issue list \<Rightarrow> FileMetrics" where
  "calculateFileMetrics pr issues0 =
     (let lines = split_lines (sourceCode pr);
          complexityIssues = filter (\<lambda>i. category i = COMPLEXITY) issues0;
          avgComplexity =
            (if length complexityIssues > 0
             then foldl (\<lambda>sum i. sum + score_or_zero i) 0 complexityIssues
                    / of_nat (length complexityIssues)
             else 1);
          issueWeight = of_nat (length issues0) * 2;
          maintainabilityValue = max 0 (100 - issueWeight - avgComplexity * 2)
      in \<lparr>complexity = avgComplexity, maintainability = maintainabilityValue,
          metricsLinesOfCode = length lines\<rparr>)"

definition analyzeFile :: "IAnalyzer list \<Rightarrow> ParseResult \<Rightarrow> FileAnalysisResult" where
  "analyzeFile analyzers pr0 =
     (let context = context_after analyzers pr0;
          pr = parseResult context;
          issues0 = contextIssues context;
          fileMetrics = calculateFileMetrics pr issues0;
          fileInfo = \<lparr>infoPath = filePath pr, infoLanguage = language pr,
                      infoSize = length (sourceCode pr),
                      linesOfCode = length (split_lines (sourceCode pr))\<rparr>
      in \<lparr>resultFile = fileInfo, resultIssues = issues0, resultSuggestions = [],
          metrics = fileMetrics\<rparr>)"

section \<open>Analysis service: project metrics and grade\<close>

datatype AnalysisStatus = PENDING | RUNNING | COMPLETED | FAILED

datatype GradeLetter = GradeA | GradeB | GradeC | GradeD | GradeF

record CodeMetrics =
  totalFiles :: nat
  totalLines :: nat
  codeLines :: int
  commentLines :: int
  blankLines :: int
  functionCount :: nat
  classCount :: nat
  averageComplexity :: rat

record QualityMetrics =
  maintainabilityIndex :: rat
  technicalDebt :: nat
  duplicateLines :: nat
  duplicatePercentage :: nat

record ComplexityMetrics =
  cmCyclomaticComplexity :: rat
  cmCognitiveComplexity :: rat
  cmNestingDepth :: nat
  cmLinesOfCode :: nat
  cmMaintainabilityIndex :: rat

record Grade =
  score :: rat
  letter :: GradeLetter
  label :: string

text \<open>\<open>ProjectMetrics\<close> without its \<open>timestamp\<close> (the clock).\<close>

record ProjectMetrics =
  code :: CodeMetrics
  quality :: QualityMetrics
  projectComplexity :: ComplexityMetrics
  grade :: Grade

text \<open>
  An element of \<open>result.files\<close> as \<open>calculateProjectMetrics\<close> reads it: the
  \<open>FileInfo\<close>, and the property \<open>metrics\<close> it looks for behind a cast to
  \<open>any\<close>.  \<open>FileInfo\<close> declares no such property, so it is \<open>None\<close> unless some
  caller put one there.
\<close>

record ProjectFile =
  info :: FileInfo
  anyMetrics :: "FileMetrics option"

text \<open>\<open>AnalysisResult\<close> without \<open>id\<close>, \<open>startTime\<close>, \<open>endTime\<close> and
  \<open>duration\<close> (a random UUID and the clock).\<close>

record AnalysisResult =
  status :: AnalysisStatus
  projectPath :: string
  files :: "ProjectFile list"
  projectIssues :: "Issue list"
  projectSuggestions :: "string list"
  projectMetrics :: ProjectMetrics
  projectError :: "string option"

definition calculateGrade :: "rat \<Rightarrow> Grade" where
  "calculateGrade sc =
     (if sc \<ge> 80 then \<lparr>score = sc, letter = GradeA, label = ''Excellent''\<rparr>
      else if sc \<ge> 60 then \<lparr>score = sc, letter = GradeB, label = ''Good''\<rparr>
      else if sc \<ge> 40 then \<lparr>score = sc, letter = GradeC, label = ''Fair''\<rparr>
      else if sc \<ge> 20 then \<lparr>score = sc, letter = GradeD, label = ''Poor''\<rparr>
      else \<lparr>score = sc, letter = GradeF, label = ''Critical''\<rparr>)"

text \<open>
  The callback of the \<open>reduce\<close> over \<open>result.files\<close>,
  \<open>(sum, f) => sum + (f as any).metrics?.complexity || 0\<close>, which parses as
  \<open>(sum + ...) || 0\<close>: without \<open>metrics\<close> the sum is \<open>NaN\<close> and the result 0; with
  it, the result is the sum unless that is 0.
\<close>

definition complexity_step :: "rat \<Rightarrow> ProjectFile \<Rightarrow> rat" where
  "complexity_step acc f =
     (case anyMetrics f of
        None \<Rightarrow> 0
      | Some m \<Rightarrow> (if acc + complexity m \<noteq> 0 then acc + complexity m else 0))"

definition calculateProjectMetrics :: "AnalysisResult \<Rightarrow> ProjectMetrics" where
  "calculateProjectMetrics result =
     (let total = foldl (\<lambda>sum f. sum + linesOfCode (info f)) 0 (files result);
          totalIssues = length (projectIssues result);
          avgComplexity =
            (if length (files result) > 0
             then foldl complexity_step 0 (files result) / of_nat (length (files result))
             else 0);
          issueWeight = of_nat totalIssues * 2;
          complexityWeight = avgComplexity * 5;
          mi = max 0 (min 100 (100 - issueWeight - complexityWeight));
          g = calculateGrade mi
      in \<lparr>code = \<lparr>totalFiles = length (files result),
                   totalLines = total,
                   codeLines = \<lfloor>of_nat total * (8 / 10 :: rat)\<rfloor>,
                   commentLines = \<lfloor>of_nat total * (1 / 10 :: rat)\<rfloor>,
                   blankLines = \<lfloor>of_nat total * (1 / 10 :: rat)\<rfloor>,
                   functionCount = 0, classCount = 0,
                   averageComplexity = avgComplexity\<rparr>,
          quality = \<lparr>maintainabilityIndex = mi,
                      technicalDebt = totalIssues * 5,
                      duplicateLines = 0, duplicatePercentage = 0\<rparr>,
          projectComplexity = \<lparr>cmCyclomaticComplexity = avgComplexity,
                                cmCognitiveComplexity = avgComplexity * (12 / 10),
                                cmNestingDepth = 0,
                                cmLinesOfCode = total,
                                cmMaintainabilityIndex = mi\<rparr>,
          grade = g\<rparr>)"

definition createEmptyMetrics :: ProjectMetrics where
  "createEmptyMetrics =
     \<lparr>code = \<lparr>totalFiles = 0, totalLines = 0, codeLines = 0, commentLines = 0,
                blankLines = 0, functionCount = 0, classCount = 0, averageComplexity = 0\<rparr>,
      quality = \<lparr>maintainabilityIndex = 0, technicalDebt = 0, duplicateLines = 0,
                   duplicatePercentage = 0\<rparr>,
      projectComplexity = \<lparr>cmCyclomaticComplexity = 0, cmCognitiveComplexity = 0,
                             cmNestingDepth = 0, cmLinesOfCode = 0,
                             cmMaintainabilityIndex = 0\<rparr>,
      grade = \<lparr>score = 0, letter = GradeF, label = ''Not analyzed''\<rparr>\<rparr>"

text \<open>
  \<open>AnalysisService.analyzeFile\<close>: parse the file, run the coordinator, and add the AI
  suggestions when \<open>enableAI\<close> is set.  The parser and the reviewer are collaborators:
  \<open>parseFile\<close> gives the tree or throws, \<open>aiReview\<close> is \<open>None\<close> when \<open>enableAI\<close>
  is off.  The reviewer is given the parse result as the analysers left it.
\<close>

definition service_analyzeFile ::
  "IAnalyzer list \<Rightarrow> (string \<Rightarrow> string + ParseResult)
     \<Rightarrow> (ParseResult \<Rightarrow> Issue list \<Rightarrow> string + string list) option
     \<Rightarrow> string \<Rightarrow> string + FileAnalysisResult" where
  "service_analyzeFile analyzers parseFile aiReview p =
     (case parseFile p of
        Inl e \<Rightarrow> Inl e
      | Inr pr \<Rightarrow>
          (let analysisResult = analyzeFile analyzers pr in
           case aiReview of
             None \<Rightarrow> Inr analysisResult
           | Some review \<Rightarrow>
               (case review (parseResult (context_after analyzers pr))
                       (resultIssues analysisResult) of
                  Inl e \<Rightarrow> Inl e
                | Inr aiSuggestions \<Rightarrow>
                    Inr (analysisResult\<lparr>resultSuggestions :=
                           resultSuggestions analysisResult @ aiSuggestions\<rparr>))))"

text \<open>The loop of \<open>analyzeDirectory\<close> over the files found: a file whose analysis
  throws is logged and left out.\<close>

fun analyze_files ::
  "IAnalyzer list \<Rightarrow> (string \<Rightarrow> string + ParseResult)
     \<Rightarrow> (ParseResult \<Rightarrow> Issue list \<Rightarrow> string + string list) option
     \<Rightarrow> string list \<Rightarrow> AnalysisResult \<Rightarrow> AnalysisResult" where
  "analyze_files analyzers parseFile aiReview [] result = result"
| "analyze_files analyzers parseFile aiReview (p # rest) result =
     (case service_analyzeFile analyzers parseFile aiReview p of
        Inr fileResult \<Rightarrow>
          analyze_files analyzers parseFile aiReview rest
            (result\<lparr>files := files result @ [\<lparr>info = resultFile fileResult, anyMetrics = None\<rparr>],
                    projectIssues := projectIssues result @ resultIssues fileResult,
                    projectSuggestions := projectSuggestions result @ resultSuggestions fileResult\<rparr>)
      | Inl e \<Rightarrow> analyze_files analyzers parseFile aiReview rest result)"

text \<open>\<open>analyzeDirectory\<close>; \<open>findFiles\<close> is what the walk over the directory gave, or
  the error it threw.\<close>

definition analyzeDirectory ::
  "IAnalyzer list \<Rightarrow> (string \<Rightarrow> string + ParseResult)
     \<Rightarrow> (ParseResult \<Rightarrow> Issue list \<Rightarrow> string + string list) option
     \<Rightarrow> string \<Rightarrow> string + string list \<Rightarrow> AnalysisResult" where
  "analyzeDirectory analyzers parseFile aiReview directoryPath findFiles =
     (let result0 = \<lparr>status = RUNNING, projectPath = directoryPath, files = [],
                     projectIssues = [], projectSuggestions = [],
                     projectMetrics = createEmptyMetrics, projectError = None\<rparr>
      in (case findFiles of
            Inr paths \<Rightarrow>
              (let result1 = analyze_files analyzers parseFile aiReview paths result0
               in result1\<lparr>projectMetrics := calculateProjectMetrics result1,
                          status := COMPLETED\<rparr>)
          | Inl e \<Rightarrow> result0\<lparr>status := FAILED, projectError := Some e\<rparr>))"

section \<open>Example trees\<close>

text \<open>Trees as the JavaScript front-end (Babel) builds them for a source text: every node
  has \<open>type\<close>, \<open>start\<close>, \<open>end\<close> and \<open>loc\<close>, then the properties of its
  node type in the order the parser sets them.\<close>

definition src_span :: "int \<Rightarrow> int \<Rightarrow> int \<Rightarrow> int \<Rightarrow> source_range" where
  "src_span l1 c1 l2 c2 = \<lparr>start = \<lparr>line = l1, column = c1\<rparr>, finish = \<lparr>line = l2, column = c2\<rparr>\<rparr>"

definition babel_node ::
  "string \<Rightarrow> rat \<Rightarrow> rat \<Rightarrow> source_range \<Rightarrow> (string \<times> jsval) list \<Rightarrow> jsval" where
  "babel_node t s e l ps =
     JObj \<lparr>ntype = Some t, loc = Some l, node_range = None\<rparr>
       ((''start'', JNum s) # (''end'', JNum e) # ps)"

definition plain_object :: "(string \<times> jsval) list \<Rightarrow> jsval" where
  "plain_object ps = JObj \<lparr>ntype = None, loc = None, node_range = None\<rparr> ps"

text \<open>\<^verbatim>\<open>db.query("SELECT * FROM users WHERE id = " + userId);\<close>\<close>

definition sql_source :: string where
  "sql_source =
     (''db.query('' @ [CHR 0x22] @ ''SELECT * FROM users WHERE id = '' @ [CHR 0x22] @ '' + userId);'')"

definition sql_ast :: jsval where
  "sql_ast =
     babel_node ''File'' 0 53 (src_span 1 0 1 53)
       [(''errors'', JArr []),
        (''program'', babel_node ''Program'' 0 53 (src_span 1 0 1 53)
           [(''sourceType'', JStr ''module''),
            (''interpreter'', JNull),
            (''body'', JArr
               [babel_node ''ExpressionStatement'' 0 53 (src_span 1 0 1 53)
                  [(''expression'', babel_node ''CallExpression'' 0 52 (src_span 1 0 1 52)
                      [(''callee'', babel_node ''MemberExpression'' 0 8 (src_span 1 0 1 8)
                          [(''object'', babel_node ''Identifier'' 0 2 (src_span 1 0 1 2)
                              [(''name'', JStr ''db'')]),
                           (''computed'', JBool False),
                           (''property'', babel_node ''Identifier'' 3 8 (src_span 1 3 1 8)
                              [(''name'', JStr ''query'')])]),
                       (''arguments'', JArr
                          [babel_node ''BinaryExpression'' 9 51 (src_span 1 9 1 51)
                             [(''left'', babel_node ''StringLiteral'' 9 42 (src_span 1 9 1 42)
                                 [(''extra'', plain_object [(''rawValue'', JStr ''SELECT * FROM users WHERE id = ''), (''raw'', JStr ([CHR 0x22] @ ''SELECT * FROM users WHERE id = '' @ [CHR 0x22]))]),
                                  (''value'', JStr ''SELECT * FROM users WHERE id = '')]),
                              (''operator'', JStr ''+''),
                              (''right'', babel_node ''Identifier'' 45 51 (src_span 1 45 1 51)
                                 [(''name'', JStr ''userId'')])]])])]]),
            (''directives'', JArr [])]),
        (''comments'', JArr [])]"

definition sql_example :: ParseResult where
  "sql_example =
     \<lparr>ast = sql_ast, language = ''javascript'', sourceCode = sql_source,
      filePath = ''test.js''\<rparr>"

text \<open>\<^verbatim>\<open>function f(x) {   if (x) {}   if (x) {}   if (x) {} }\<close> (on 5 lines)\<close>

definition flat_ifs_source :: string where
  "flat_ifs_source =
     (''function f(x) {'' @ [CHR 0x0A]) @
     (''  if (x) {}'' @ [CHR 0x0A]) @
     (''  if (x) {}'' @ [CHR 0x0A]) @
     (''  if (x) {}'' @ [CHR 0x0A]) @
     ''}''"

definition flat_ifs_function :: jsval where
  "flat_ifs_function =
     babel_node ''FunctionDeclaration'' 0 53 (src_span 1 0 5 1)
       [(''id'', babel_node ''Identifier'' 9 10 (src_span 1 9 1 10)
           [(''name'', JStr ''f'')]),
        (''generator'', JBool False),
        (''async'', JBool False),
        (''params'', JArr
           [babel_node ''Identifier'' 11 12 (src_span 1 11 1 12)
              [(''name'', JStr ''x'')]]),
        (''body'', babel_node ''BlockStatement'' 14 53 (src_span 1 14 5 1)
           [(''body'', JArr
               [babel_node ''IfStatement'' 18 27 (src_span 2 2 2 11)
                  [(''test'', babel_node ''Identifier'' 22 23 (src_span 2 6 2 7)
                      [(''name'', JStr ''x'')]),
                   (''consequent'', babel_node ''BlockStatement'' 25 27 (src_span 2 9 2 11)
                      [(''body'', JArr []),
                       (''directives'', JArr [])]),
                   (''alternate'', JNull)],
                babel_node ''IfStatement'' 30 39 (src_span 3 2 3 11)
                  [(''test'', babel_node ''Identifier'' 34 35 (src_span 3 6 3 7)
                      [(''name'', JStr ''x'')]),
                   (''consequent'', babel_node ''BlockStatement'' 37 39 (src_span 3 9 3 11)
                      [(''body'', JArr []),
                       (''directives'', JArr [])]),
                   (''alternate'', JNull)],
                babel_node ''IfStatement'' 42 51 (src_span 4 2 4 11)
                  [(''test'', babel_node ''Identifier'' 46 47 (src_span 4 6 4 7)
                      [(''name'', JStr ''x'')]),
                   (''consequent'', babel_node ''BlockStatement'' 49 51 (src_span 4 9 4 11)
                      [(''body'', JArr []),
                       (''directives'', JArr [])]),
                   (''alternate'', JNull)]]),
            (''directives'', JArr [])])]"

definition flat_ifs_ast :: jsval where
  "flat_ifs_ast =
     babel_node ''File'' 0 53 (src_span 1 0 5 1)
       [(''errors'', JArr []),
        (''program'', babel_node ''Program'' 0 53 (src_span 1 0 5 1)
           [(''sourceType'', JStr ''module''),
            (''interpreter'', JNull),
            (''body'', JArr
               [flat_ifs_function]),
            (''directives'', JArr [])]),
        (''comments'', JArr [])]"

definition flat_ifs_example :: ParseResult where
  "flat_ifs_example =
     \<lparr>ast = flat_ifs_ast, language = ''javascript'', sourceCode = flat_ifs_source,
      filePath = ''test.js''\<rparr>"

text \<open>\<^verbatim>\<open>function f(x) {   if (x) {     if (x) {       if (x) {}     }   } }\<close> (on 7 lines)\<close>

definition nested_ifs_source :: string where
  "nested_ifs_source =
     (''function f(x) {'' @ [CHR 0x0A]) @
     (''  if (x) {'' @ [CHR 0x0A]) @
     (''    if (x) {'' @ [CHR 0x0A]) @
     (''      if (x) {}'' @ [CHR 0x0A]) @
     (''    }'' @ [CHR 0x0A]) @
     (''  }'' @ [CHR 0x0A]) @
     ''}''"

definition nested_ifs_function :: jsval where
  "nested_ifs_function =
     babel_node ''FunctionDeclaration'' 0 67 (src_span 1 0 7 1)
       [(''id'', babel_node ''Identifier'' 9 10 (src_span 1 9 1 10)
           [(''name'', JStr ''f'')]),
        (''generator'', JBool False),
        (''async'', JBool False),
        (''params'', JArr
           [babel_node ''Identifier'' 11 12 (src_span 1 11 1 12)
              [(''name'', JStr ''x'')]]),
        (''body'', babel_node ''BlockStatement'' 14 67 (src_span 1 14 7 1)
           [(''body'', JArr
               [babel_node ''IfStatement'' 18 65 (src_span 2 2 6 3)
                  [(''test'', babel_node ''Identifier'' 22 23 (src_span 2 6 2 7)
                      [(''name'', JStr ''x'')]),
                   (''consequent'', babel_node ''BlockStatement'' 25 65 (src_span 2 9 6 3)
                      [(''body'', JArr
                          [babel_node ''IfStatement'' 31 61 (src_span 3 4 5 5)
                             [(''test'', babel_node ''Identifier'' 35 36 (src_span 3 8 3 9)
                                 [(''name'', JStr ''x'')]),
                              (''consequent'', babel_node ''BlockStatement'' 38 61 (src_span 3 11 5 5)
                                 [(''body'', JArr
                                     [babel_node ''IfStatement'' 46 55 (src_span 4 6 4 15)
                                        [(''test'', babel_node ''Identifier'' 50 51 (src_span 4 10 4 11)
                                            [(''name'', JStr ''x'')]),
                                         (''consequent'', babel_node ''BlockStatement'' 53 55 (src_span 4 13 4 15)
                                            [(''body'', JArr []),
                                             (''directives'', JArr [])]),
                                         (''alternate'', JNull)]]),
                                  (''directives'', JArr [])]),
                              (''alternate'', JNull)]]),
                       (''directives'', JArr [])]),
                   (''alternate'', JNull)]]),
            (''directives'', JArr [])])]"

definition nested_ifs_ast :: jsval where
  "nested_ifs_ast =
     babel_node ''File'' 0 67 (src_span 1 0 7 1)
       [(''errors'', JArr []),
        (''program'', babel_node ''Program'' 0 67 (src_span 1 0 7 1)
           [(''sourceType'', JStr ''module''),
            (''interpreter'', JNull),
            (''body'', JArr
               [nested_ifs_function]),
            (''directives'', JArr [])]),
        (''comments'', JArr [])]"

definition nested_ifs_example :: ParseResult where
  "nested_ifs_example =
     \<lparr>ast = nested_ifs_ast, language = ''javascript'', sourceCode = nested_ifs_source,
      filePath = ''test.js''\<rparr>"

text \<open>\<^verbatim>\<open>function deeplyNested() {   if (true) {     if (true) {       if (true) {         if (true) {           if (true) {             console.log('too deep');           }         }       }     }   } }\<close> (on 13 lines)\<close>

definition deeply_nested_source :: string where
  "deeply_nested_source =
     (''function deeplyNested() {'' @ [CHR 0x0A]) @
     (''  if (true) {'' @ [CHR 0x0A]) @
     (''    if (true) {'' @ [CHR 0x0A]) @
     (''      if (true) {'' @ [CHR 0x0A]) @
     (''        if (true) {'' @ [CHR 0x0A]) @
     (''          if (true) {'' @ [CHR 0x0A]) @
     (''            console.log('' @ [CHR 0x27] @ ''too deep'' @ [CHR 0x27] @ '');'' @ [CHR 0x0A]) @
     (''          }'' @ [CHR 0x0A]) @
     (''        }'' @ [CHR 0x0A]) @
     (''      }'' @ [CHR 0x0A]) @
     (''    }'' @ [CHR 0x0A]) @
     (''  }'' @ [CHR 0x0A]) @
     ''}''"

definition deeply_nested_function :: jsval where
  "deeply_nested_function =
     babel_node ''FunctionDeclaration'' 0 194 (src_span 1 0 13 1)
       [(''id'', babel_node ''Identifier'' 9 21 (src_span 1 9 1 21)
           [(''name'', JStr ''deeplyNested'')]),
        (''generator'', JBool False),
        (''async'', JBool False),
        (''params'', JArr []),
        (''body'', babel_node ''BlockStatement'' 24 194 (src_span 1 24 13 1)
           [(''body'', JArr
               [babel_node ''IfStatement'' 28 192 (src_span 2 2 12 3)
                  [(''test'', babel_node ''BooleanLiteral'' 32 36 (src_span 2 6 2 10)
                      [(''value'', JBool True)]),
                   (''consequent'', babel_node ''BlockStatement'' 38 192 (src_span 2 12 12 3)
                      [(''body'', JArr
                          [babel_node ''IfStatement'' 44 188 (src_span 3 4 11 5)
                             [(''test'', babel_node ''BooleanLiteral'' 48 52 (src_span 3 8 3 12)
                                 [(''value'', JBool True)]),
                              (''consequent'', babel_node ''BlockStatement'' 54 188 (src_span 3 14 11 5)
                                 [(''body'', JArr
                                     [babel_node ''IfStatement'' 62 182 (src_span 4 6 10 7)
                                        [(''test'', babel_node ''BooleanLiteral'' 66 70 (src_span 4 10 4 14)
                                            [(''value'', JBool True)]),
                                         (''consequent'', babel_node ''BlockStatement'' 72 182 (src_span 4 16 10 7)
                                            [(''body'', JArr
                                                [babel_node ''IfStatement'' 82 174 (src_span 5 8 9 9)
                                                   [(''test'', babel_node ''BooleanLiteral'' 86 90 (src_span 5 12 5 16)
                                                       [(''value'', JBool True)]),
                                                    (''consequent'', babel_node ''BlockStatement'' 92 174 (src_span 5 18 9 9)
                                                       [(''body'', JArr
                                                           [babel_node ''IfStatement'' 104 164 (src_span 6 10 8 11)
                                                              [(''test'', babel_node ''BooleanLiteral'' 108 112 (src_span 6 14 6 18)
                                                                  [(''value'', JBool True)]),
                                                               (''consequent'', babel_node ''BlockStatement'' 114 164 (src_span 6 20 8 11)
                                                                  [(''body'', JArr
                                                                      [babel_node ''ExpressionStatement'' 128 152 (src_span 7 12 7 36)
                                                                         [(''expression'', babel_node ''CallExpression'' 128 151 (src_span 7 12 7 35)
                                                                             [(''callee'', babel_node ''MemberExpression'' 128 139 (src_span 7 12 7 23)
                                                                                 [(''object'', babel_node ''Identifier'' 128 135 (src_span 7 12 7 19)
                                                                                     [(''name'', JStr ''console'')]),
                                                                                  (''computed'', JBool False),
                                                                                  (''property'', babel_node ''Identifier'' 136 139 (src_span 7 20 7 23)
                                                                                     [(''name'', JStr ''log'')])]),
                                                                              (''arguments'', JArr
                                                                                 [babel_node ''StringLiteral'' 140 150 (src_span 7 24 7 34)
                                                                                    [(''extra'', plain_object [(''rawValue'', JStr ''too deep''), (''raw'', JStr ([CHR 0x27] @ ''too deep'' @ [CHR 0x27]))]),
                                                                                     (''value'', JStr ''too deep'')]])])]]),
                                                                   (''directives'', JArr [])]),
                                                               (''alternate'', JNull)]]),
                                                        (''directives'', JArr [])]),
                                                    (''alternate'', JNull)]]),
                                             (''directives'', JArr [])]),
                                         (''alternate'', JNull)]]),
                                  (''directives'', JArr [])]),
                              (''alternate'', JNull)]]),
                       (''directives'', JArr [])]),
                   (''alternate'', JNull)]]),
            (''directives'', JArr [])])]"

definition deeply_nested_ast :: jsval where
  "deeply_nested_ast =
     babel_node ''File'' 0 194 (src_span 1 0 13 1)
       [(''errors'', JArr []),
        (''program'', babel_node ''Program'' 0 194 (src_span 1 0 13 1)
           [(''sourceType'', JStr ''module''),
            (''interpreter'', JNull),
            (''body'', JArr
               [deeply_nested_function]),
            (''directives'', JArr [])]),
        (''comments'', JArr [])]"

definition deeply_nested_example :: ParseResult where
  "deeply_nested_example =
     \<lparr>ast = deeply_nested_ast, language = ''javascript'', sourceCode = deeply_nested_source,
      filePath = ''test.js''\<rparr>"

text \<open>\<^verbatim>\<open>const x = 1;\<close>\<close>

definition const_x_source :: string where
  "const_x_source =
     ''const x = 1;''"

definition const_x_ast :: jsval where
  "const_x_ast =
     babel_node ''File'' 0 12 (src_span 1 0 1 12)
       [(''errors'', JArr []),
        (''program'', babel_node ''Program'' 0 12 (src_span 1 0 1 12)
           [(''sourceType'', JStr ''module''),
            (''interpreter'', JNull),
            (''body'', JArr
               [babel_node ''VariableDeclaration'' 0 12 (src_span 1 0 1 12)
                  [(''declarations'', JArr
                      [babel_node ''VariableDeclarator'' 6 11 (src_span 1 6 1 11)
                         [(''id'', babel_node ''Identifier'' 6 7 (src_span 1 6 1 7)
                             [(''name'', JStr ''x'')]),
                          (''init'', babel_node ''NumericLiteral'' 10 11 (src_span 1 10 1 11)
                             [(''extra'', plain_object [(''rawValue'', JNum 1), (''raw'', JStr ''1'')]),
                              (''value'', JNum 1)])]]),
                   (''kind'', JStr ''const'')]]),
            (''directives'', JArr [])]),
        (''comments'', JArr [])]"

definition const_x_example :: ParseResult where
  "const_x_example =
     \<lparr>ast = const_x_ast, language = ''javascript'', sourceCode = const_x_source,
      filePath = ''test.js''\<rparr>"


section \<open>Notions used in the statements\<close>

subsection \<open>Children of a node, pre-order, and the trace of a traversal\<close>

text \<open>
  The child nodes of a node, left to right: for every property that is not among the
  ignored keys, the elements of an array that have a \<open>type\<close>, or the value itself when
  it is an object with a \<open>type\<close>.
\<close>

definition value_children :: "jsval \<Rightarrow> jsval list" where
  "value_children v =
     (case v of
        JArr xs \<Rightarrow> filter has_type xs
      | JObj m ps \<Rightarrow> (if has_type v then [v] else [])
      | _ \<Rightarrow> [])"

definition property_children :: "string \<times> jsval \<Rightarrow> jsval list" where
  "property_children kv = (if fst kv \<in> set ignoreKeys then [] else value_children (snd kv))"

fun children :: "jsval \<Rightarrow> jsval list" where
  "children (JObj m ps) = concat (map property_children ps)"
| "children v = []"

definition is_object :: "jsval \<Rightarrow> bool" where
  "is_object v = (case v of JObj m ps \<Rightarrow> True | _ \<Rightarrow> False)"

lemma size_member:
  "c \<in> set xs \<Longrightarrow> size c \<le> size_list size xs"
  by (induction xs) auto

lemma has_type_object:
  "has_type c \<Longrightarrow> \<exists>m ps. c = JObj m ps"
  by (cases c) (simp_all add: has_type_def)

lemma size_value_children:
  "c \<in> set (value_children v) \<Longrightarrow> size c \<le> size v"
  by (cases v) (auto simp: value_children_def dest: size_member split: if_splits)

lemma size_children:
  "c \<in> set (children n) \<Longrightarrow> size c < size n"
proof (cases n)
  case (JObj m ps)
  assume "c \<in> set (children n)"
  with JObj obtain k v where kv: "(k, v) \<in> set ps" and c: "c \<in> set (value_children v)"
    by (auto simp: property_children_def split: if_splits)
  from kv have "size v < size_list (size_prod (\<lambda>_. 0) size) ps + 1"
    by (induction ps) auto
  with size_value_children [OF c] JObj show ?thesis
    by simp
qed auto

text \<open>
  The nodes a traversal visits, in its order: a node, then, unless \<open>stop\<close> holds of
  it, its children from left to right, each with what is below it.  With nothing stopped
  this is the pre-order of the tree.
\<close>

function visit_order :: "(jsval \<Rightarrow> bool) \<Rightarrow> jsval \<Rightarrow> jsval list" where
  "visit_order stop v =
     (if is_object v
      then v # (if stop v then [] else concat (map (visit_order stop) (children v)))
      else [])"
  by pat_completeness auto
termination
  by (relation "measure (\<lambda>(stop, v). size v)") (auto simp: size_children)

declare visit_order.simps [simp del]

definition preorder :: "jsval \<Rightarrow> jsval list" where
  "preorder v = visit_order (\<lambda>n. False) v"

text \<open>
  Visitors that record their calls.  The shape of a visitor says, for every key, whether
  the visitor object has it, and whether it is bound to a function or to an object with
  or without \<open>enter\<close> and with or without \<open>exit\<close>; the key \<open>*\<close> bound to a
  function is the wildcard.  Every callback appends an event to the log; the function or
  the \<open>enter\<close> bound to a key returns \<open>false\<close> on the nodes that \<open>refuse\<close> gives
  for that key.
\<close>

datatype entry_shape = FunctionEntry | ObjectEntry bool bool

datatype event = Called string jsval | Entered jsval | Exited jsval

definition probe ::
  "(string \<rightharpoonup> entry_shape) \<Rightarrow> (string \<Rightarrow> jsval \<Rightarrow> bool) \<Rightarrow> (event list) Visitor" where
  "probe shape refuse = (\<lambda>key.
     case shape key of
       None \<Rightarrow> None
     | Some FunctionEntry \<Rightarrow>
         Some (Fn (\<lambda>node parent path evs. (refuse key node, evs @ [Called key node])))
     | Some (ObjectEntry has_enter has_exit) \<Rightarrow>
         Some (EnterExit
           (if has_enter
            then Some (\<lambda>node parent path evs. (refuse key node, evs @ [Entered node]))
            else None)
           (if has_exit
            then Some (\<lambda>node parent path evs. (False, evs @ [Exited node]))
            else None)))"

text \<open>
  What is expected of the traversal with such a visitor, on one node: the callback of
  the node's type is called on entering, as a function or as \<open>enter\<close>; the wildcard is
  called in addition; the descent is suppressed when the callback of the node's type
  returned \<open>false\<close>; the \<open>exit\<close> of the node's type is called on leaving.
\<close>

definition kind_key :: "jsval \<Rightarrow> string" where
  "kind_key v = type_key (type_of v)"

definition enter_events :: "(string \<rightharpoonup> entry_shape) \<Rightarrow> jsval \<Rightarrow> event list" where
  "enter_events shape v =
     (case shape (kind_key v) of
        Some FunctionEntry \<Rightarrow> [Called (kind_key v) v]
      | Some (ObjectEntry True has_exit) \<Rightarrow> [Entered v]
      | _ \<Rightarrow> [])"

definition wildcard_events :: "(string \<rightharpoonup> entry_shape) \<Rightarrow> jsval \<Rightarrow> event list" where
  "wildcard_events shape v = (if shape ''*'' = Some FunctionEntry then [Called ''*'' v] else [])"

definition exit_events :: "(string \<rightharpoonup> entry_shape) \<Rightarrow> jsval \<Rightarrow> event list" where
  "exit_events shape v =
     (case shape (kind_key v) of
        Some (ObjectEntry has_enter True) \<Rightarrow> [Exited v]
      | _ \<Rightarrow> [])"

definition descent_suppressed ::
  "(string \<rightharpoonup> entry_shape) \<Rightarrow> (string \<Rightarrow> jsval \<Rightarrow> bool) \<Rightarrow> jsval \<Rightarrow> bool" where
  "descent_suppressed shape refuse v =
     (case shape (kind_key v) of
        Some FunctionEntry \<Rightarrow> refuse (kind_key v) v
      | Some (ObjectEntry True has_exit) \<Rightarrow> refuse (kind_key v) v
      | _ \<Rightarrow> False)"

text \<open>The expected log of a traversal: pre-order and depth first, children from left to
  right, nothing below a node whose descent is suppressed.\<close>

function expected_trace ::
  "(string \<rightharpoonup> entry_shape) \<Rightarrow> (string \<Rightarrow> jsval \<Rightarrow> bool) \<Rightarrow> jsval \<Rightarrow> event list" where
  "expected_trace shape refuse v =
     (if is_object v
      then enter_events shape v @ wildcard_events shape v
           @ (if descent_suppressed shape refuse v then []
              else concat (map (expected_trace shape refuse) (children v)))
           @ exit_events shape v
      else [])"
  by pat_completeness auto
termination
  by (relation "measure (\<lambda>(shape, refuse, v). size v)") (auto simp: size_children)

declare expected_trace.simps [simp del]

text \<open>The log without the calls of \<open>exit\<close>.\<close>

definition before_exit :: "event list \<Rightarrow> event list" where
  "before_exit evs = filter (\<lambda>e. case e of Exited n \<Rightarrow> False | _ \<Rightarrow> True) evs"

text \<open>A condition on the \<open>type\<close> of every object inside a value.\<close>

fun all_types :: "(string option \<Rightarrow> bool) \<Rightarrow> jsval \<Rightarrow> bool" where
  "all_types Q (JObj m ps) = (Q (ntype m) \<and> list_all (all_types Q) (map snd ps))"
| "all_types Q (JArr xs) = list_all (all_types Q) xs"
| "all_types Q v = True"

subsection \<open>Properties of issues\<close>

text \<open>The three properties of a security issue are set and not empty.\<close>

definition has_security_fields :: "Issue \<Rightarrow> bool" where
  "has_security_fields i =
     ((case vulnerability i of Some v \<Rightarrow> v \<noteq> [] | None \<Rightarrow> False)
      \<and> (case cwe i of Some v \<Rightarrow> v \<noteq> [] | None \<Rightarrow> False)
      \<and> (case owasp i of Some v \<Rightarrow> v \<noteq> [] | None \<Rightarrow> False))"

definition not_nesting_issue :: "Issue \<Rightarrow> bool" where
  "not_nesting_issue i = (ruleId i \<noteq> ''excessive-nesting'')"




section \<open>Theorems\<close>

subsection \<open>The tree walker\<close>

lemma traverseArray_fold:
  "traverseArray node xs vis path s
     = foldl (\<lambda>s c. traverse c vis (Some node) path s) s (filter has_type xs)"
  by (induction xs arbitrary: s) simp_all

lemma traverseChildren_fold:
  "traverseChildren node ps vis path s
     = foldl (\<lambda>s c. traverse c vis (Some node) path s) s (concat (map property_children ps))"
proof (induction ps arbitrary: s)
  case Nil
  show ?case by simp
next
  case (Cons kv ps)
  obtain k v where kv: "kv = (k, v)" by (cases kv)
  show ?case
    by (cases v)
       (simp_all add: kv Cons.IH property_children_def value_children_def traverseArray_fold)
qed

lemma traverse_children:
  "traverse (JObj m ps) vis parent path s =
     (let node = JObj m ps;
          currentPath = path @ [ntype m];
          visitorFn = vis (type_key (ntype m));
          r = callEnter visitorFn node parent currentPath s;
          s2 = callWildcard vis node parent currentPath (snd r);
          s3 = (if fst r then s2
                else foldl (\<lambda>s c. traverse c vis (Some node) currentPath s) s2 (children node))
      in callExit visitorFn node parent currentPath s3)"
  by (simp add: Let_def traverseChildren_fold)

lemma traverse_not_object:
  "(case v of JObj m ps \<Rightarrow> False | _ \<Rightarrow> True) \<Longrightarrow> traverse v vis parent path s = s"
  by (cases v) simp_all

declare traverse.simps [simp del]

lemma non_object_cases:
  "\<not> is_object v \<Longrightarrow> (case v of JObj m ps \<Rightarrow> False | _ \<Rightarrow> True)"
  by (cases v) (simp_all add: is_object_def)

lemma foldl_invariant:
  assumes "\<And>c s. c \<in> set cs \<Longrightarrow> P s \<Longrightarrow> P (f s c)" and "P s"
  shows "P (foldl f s cs)"
  using assms by (induction cs arbitrary: s) auto

text \<open>
  An invariant of the state: when every callback keeps \<open>P\<close> on the nodes that satisfy
  \<open>R\<close>, and \<open>R\<close> passes from a node to its children, a traversal from a node that
  satisfies \<open>R\<close> keeps \<open>P\<close>.
\<close>

lemma traverse_invariant:
  assumes hered: "\<And>n c. R n \<Longrightarrow> c \<in> set (children n) \<Longrightarrow> R c"
    and enter: "\<And>m ps p pa s. R (JObj m ps) \<Longrightarrow> P s
                  \<Longrightarrow> P (snd (callEnter (vis (type_key (ntype m))) (JObj m ps) p pa s))"
    and wild: "\<And>n p pa s. R n \<Longrightarrow> P s \<Longrightarrow> P (callWildcard vis n p pa s)"
    and exit: "\<And>m ps p pa s. R (JObj m ps) \<Longrightarrow> P s
                  \<Longrightarrow> P (callExit (vis (type_key (ntype m))) (JObj m ps) p pa s)"
  shows "R tree \<Longrightarrow> P s \<Longrightarrow> P (traverse tree vis parent path s)"
proof (induction tree arbitrary: parent path s rule: measure_induct_rule [where f = size])
  case (less tree)
  show ?case
  proof (cases tree)
    case (JObj m ps)
    let ?cp = "path @ [ntype m]"
    let ?r = "callEnter (vis (type_key (ntype m))) tree parent ?cp s"
    let ?s2 = "callWildcard vis tree parent ?cp (snd ?r)"
    have s2: "P ?s2"
      using less.prems enter wild JObj by simp
    have kids: "P (foldl (\<lambda>s c. traverse c vis (Some tree) ?cp s) ?s2 (children tree))"
    proof (rule foldl_invariant [where P = P, OF _ s2])
      fix c s' assume "c \<in> set (children tree)" "P s'"
      then show "P (traverse c vis (Some tree) ?cp s')"
        using less.IH [of c] size_children hered less.prems(1) by blast
    qed
    show ?thesis
      using JObj s2 kids exit less.prems(1)
      by (simp add: traverse_children Let_def)
  qed (simp_all add: traverse_not_object less.prems)
qed

lemma all_types_value_children:
  "all_types Q v \<Longrightarrow> c \<in> set (value_children v) \<Longrightarrow> all_types Q c"
  by (cases v) (auto simp: value_children_def list_all_iff split: if_splits)

lemma all_types_children:
  "all_types Q n \<Longrightarrow> c \<in> set (children n) \<Longrightarrow> all_types Q c"
proof (cases n)
  case (JObj m ps)
  assume a: "all_types Q n" and "c \<in> set (children n)"
  with JObj obtain k v where kv: "(k, v) \<in> set ps" and c: "c \<in> set (value_children v)"
    by (auto simp: property_children_def split: if_splits)
  from a JObj kv have "all_types Q v"
    by (force simp: list_all_iff)
  then show ?thesis
    using c by (rule all_types_value_children)
qed auto

lemma all_types_get_prop:
  "all_types Q n \<Longrightarrow> all_types Q (get_prop n key)"
proof (cases n)
  case (JObj m ps)
  assume a: "all_types Q n"
  show ?thesis
  proof (cases "map_of ps key")
    case None
    with JObj show ?thesis by (simp split: option.splits)
  next
    case (Some v)
    then have "(key, v) \<in> set ps" by (rule map_of_SomeD)
    with a JObj have "all_types Q v" by (force simp: list_all_iff)
    with JObj Some show ?thesis by (simp split: option.splits)
  qed
qed auto

text \<open>
  A visitor that has no entry for any node type of the tree, and no wildcard function,
  leaves the state as it was.
\<close>

lemma traverse_unregistered:
  assumes "all_types Q tree"
    and "\<And>t. Q t \<Longrightarrow> vis (type_key t) = None"
    and "\<And>w. vis ''*'' \<noteq> Some (Fn w)"
  shows "traverse tree vis parent path s = s"
proof -
  have "(\<lambda>x. x = s) (traverse tree vis parent path s)"
  proof (rule traverse_invariant [where R = "all_types Q" and P = "\<lambda>x. x = s"])
    show "all_types Q tree" by fact
  next
    fix n c assume "all_types Q n" "c \<in> set (children n)"
    then show "all_types Q c" by (rule all_types_children)
  next
    fix m ps p pa s' assume "all_types Q (JObj m ps)" "s' = s"
    then show "snd (callEnter (vis (type_key (ntype m))) (JObj m ps) p pa s') = s"
      using assms(2) [of "ntype m"] by (simp add: callEnter_def)
  next
    fix n p pa s' assume "s' = s"
    then show "callWildcard vis n p pa s' = s"
      using assms(3) by (auto simp: callWildcard_def split: option.splits visitor_entry.splits)
  next
    fix m ps p pa s' assume "all_types Q (JObj m ps)" "s' = s"
    then show "callExit (vis (type_key (ntype m))) (JObj m ps) p pa s' = s"
      using assms(2) [of "ntype m"] by (simp add: callExit_def)
  qed simp
  then show ?thesis .
qed

lemma kind_key_object [simp]:
  "kind_key (JObj m ps) = type_key (ntype m)"
  by (simp add: kind_key_def)

lemma callEnter_probe:
  "callEnter (probe shape refuse (kind_key v)) v p pa evs
     = (descent_suppressed shape refuse v, evs @ enter_events shape v)"
  by (simp add: callEnter_def probe_def descent_suppressed_def enter_events_def
      split: option.splits entry_shape.splits bool.splits)

lemma callWildcard_probe:
  "callWildcard (probe shape refuse) v p pa evs = evs @ wildcard_events shape v"
  by (simp add: callWildcard_def probe_def wildcard_events_def
      split: option.splits entry_shape.splits bool.splits)

lemma callExit_probe:
  "callExit (probe shape refuse (kind_key v)) v p pa evs = evs @ exit_events shape v"
  by (simp add: callExit_def probe_def exit_events_def
      split: option.splits entry_shape.splits bool.splits)

text \<open>The log of a traversal with a recording visitor is the expected one, whatever the
  shape of the visitor, the answers of its callbacks, and the tree.\<close>

lemma traverse_probe:
  "traverse tree (probe shape refuse) parent path evs = evs @ expected_trace shape refuse tree"
proof (induction tree arbitrary: parent path evs rule: measure_induct_rule [where f = size])
  case (less tree)
  show ?case
  proof (cases "is_object tree")
    case True
    then obtain m ps where obj: "tree = JObj m ps"
      by (cases tree) (simp_all add: is_object_def)
    have kids: "set cs \<subseteq> set (children tree) \<Longrightarrow>
        foldl (\<lambda>s c. traverse c (probe shape refuse) (Some tree) pa s) l cs
          = l @ concat (map (expected_trace shape refuse) cs)" for cs pa l
    proof (induction cs arbitrary: l)
      case Nil
      show ?case by simp
    next
      case (Cons c cs)
      then have "size c < size tree"
        by (simp add: size_children)
      then show ?case
        using Cons by (simp add: less.IH)
    qed
    have w: "expected_trace shape refuse tree
        = enter_events shape tree @ wildcard_events shape tree
          @ (if descent_suppressed shape refuse tree then []
             else concat (map (expected_trace shape refuse) (children tree)))
          @ exit_events shape tree"
      using True by (simp add: expected_trace.simps [of shape refuse tree])
    have t: "traverse tree (probe shape refuse) parent path evs
        = (if descent_suppressed shape refuse tree
           then evs @ enter_events shape tree @ wildcard_events shape tree
           else foldl (\<lambda>s c. traverse c (probe shape refuse) (Some tree) (path @ [ntype m]) s)
                  (evs @ enter_events shape tree @ wildcard_events shape tree) (children tree))
          @ exit_events shape tree"
      unfolding obj
      using callEnter_probe [of shape refuse "JObj m ps"] callExit_probe [of shape refuse "JObj m ps"]
      by (simp add: traverse_children Let_def callWildcard_probe del: children.simps)
    show ?thesis
      unfolding t w using kids [of "children tree"] by simp
  next
    case False
    then show ?thesis
      by (simp add: traverse_not_object non_object_cases expected_trace.simps [of shape refuse tree])
  qed
qed

text \<open>A node whose type is the string \<open>*\<close>, under a visitor whose key \<open>*\<close> is a
  function: the function is called for the type of the node and once more as the
  wildcard, and when it returns \<open>false\<close> the children are left out.\<close>

lemma wildcard_function_on_star_node:
  "traverse (JObj \<lparr>ntype = Some ''*'', loc = None, node_range = None\<rparr> [(''body'', child)])
     (probe (map_of [(''*'', FunctionEntry)]) (\<lambda>key n. True)) None [] []
   = [Called ''*'' (JObj \<lparr>ntype = Some ''*'', loc = None, node_range = None\<rparr> [(''body'', child)]),
      Called ''*'' (JObj \<lparr>ntype = Some ''*'', loc = None, node_range = None\<rparr> [(''body'', child)])]"
  by (simp add: traverse_probe expected_trace.simps [of _ _ "JObj m ps" for m ps] is_object_def
        enter_events_def wildcard_events_def exit_events_def descent_suppressed_def type_key_def)

lemma before_exit_simps [simp]:
  "before_exit [] = []"
  "before_exit (xs @ ys) = before_exit xs @ before_exit ys"
  "before_exit (enter_events shape v) = enter_events shape v"
  "before_exit (wildcard_events shape v) = wildcard_events shape v"
  "before_exit (exit_events shape v) = []"
  by (simp_all add: before_exit_def enter_events_def wildcard_events_def exit_events_def
      split: option.splits entry_shape.splits bool.splits)

lemma before_exit_concat:
  "before_exit (concat xss) = concat (map before_exit xss)"
  by (induction xss) simp_all

lemma concat_map_concat:
  "concat (map f (concat (map g xs))) = concat (map (\<lambda>x. concat (map f (g x))) xs)"
  by (induction xs) simp_all

text \<open>Without the calls of \<open>exit\<close>, the expected log is the calls on one node after the
  other, for the nodes of the visit order.\<close>

lemma before_exit_expected_trace:
  "before_exit (expected_trace shape refuse tree)
     = concat (map (\<lambda>n. enter_events shape n @ wildcard_events shape n)
                   (visit_order (descent_suppressed shape refuse) tree))"
proof (induction tree rule: measure_induct_rule [where f = size])
  case (less tree)
  let ?calls = "\<lambda>n. enter_events shape n @ wildcard_events shape n"
  have "map (\<lambda>c. before_exit (expected_trace shape refuse c)) (children tree)
      = map (\<lambda>c. concat (map ?calls (visit_order (descent_suppressed shape refuse) c)))
          (children tree)"
    by (rule map_cong [OF refl]) (simp add: less.IH size_children)
  then have "concat (map (\<lambda>c. before_exit (expected_trace shape refuse c)) (children tree))
      = concat (map (\<lambda>c. concat (map ?calls (visit_order (descent_suppressed shape refuse) c)))
          (children tree))"
    by (rule arg_cong)
  then show ?case
    by (simp add: expected_trace.simps [of shape refuse tree]
          visit_order.simps [of _ tree] before_exit_concat comp_def concat_map_concat)
qed

lemma descent_never_suppressed:
  "descent_suppressed shape (\<lambda>key n. False) = (\<lambda>n. False)"
  by (rule ext) (simp add: descent_suppressed_def split: option.splits entry_shape.splits bool.splits)

text \<open>
  Claim C3.  Take any tree and any visitor object: any keys, each bound to a function or
  to an object with or without \<open>enter\<close> and \<open>exit\<close>, with or without a wildcard
  function, callbacks that return \<open>false\<close> on any nodes.  The calls that \<open>traverse\<close>
  makes are the expected ones.  Leaving the calls of \<open>exit\<close> aside, they are the calls
  on one node after the other, each node once, in the visit order, which is the pre-order
  of the tree when no callback returns \<open>false\<close>.  When the callback of a node's type
  returns \<open>false\<close>, the calls on that node are all there is: nothing below it is
  visited, and its \<open>exit\<close>, if there is one, is still called.
\<close>

theorem traverse_preorder_skip_exit:
  "traverse tree (probe shape refuse) parent path [] = expected_trace shape refuse tree
   \<and> before_exit (traverse tree (probe shape refuse) parent path [])
       = concat (map (\<lambda>n. enter_events shape n @ wildcard_events shape n)
                     (visit_order (descent_suppressed shape refuse) tree))
   \<and> before_exit (traverse tree (probe shape (\<lambda>key n. False)) parent path [])
       = concat (map (\<lambda>n. enter_events shape n @ wildcard_events shape n) (preorder tree))
   \<and> (is_object tree \<and> descent_suppressed shape refuse tree
        \<longrightarrow> traverse tree (probe shape refuse) parent path []
              = enter_events shape tree @ wildcard_events shape tree @ exit_events shape tree)"
proof (intro conjI impI)
  show "traverse tree (probe shape refuse) parent path [] = expected_trace shape refuse tree"
    by (simp add: traverse_probe)
  show "before_exit (traverse tree (probe shape refuse) parent path [])
       = concat (map (\<lambda>n. enter_events shape n @ wildcard_events shape n)
                     (visit_order (descent_suppressed shape refuse) tree))"
    by (simp add: traverse_probe before_exit_expected_trace)
  show "before_exit (traverse tree (probe shape (\<lambda>key n. False)) parent path [])
       = concat (map (\<lambda>n. enter_events shape n @ wildcard_events shape n) (preorder tree))"
    by (simp add: traverse_probe before_exit_expected_trace descent_never_suppressed
          preorder_def)
  show "traverse tree (probe shape refuse) parent path []
          = enter_events shape tree @ wildcard_events shape tree @ exit_events shape tree"
    if "is_object tree \<and> descent_suppressed shape refuse tree"
    using that by (simp add: traverse_probe expected_trace.simps [of shape refuse tree])
qed

theorem traverse_preorder_skip_exit_witness:
  "is_object flat_ifs_function
   \<and> descent_suppressed
        (map_of [(''FunctionDeclaration'', ObjectEntry True True), (''*'', FunctionEntry)])
        (\<lambda>key n. key = ''FunctionDeclaration'') flat_ifs_function
   \<and> traverse flat_ifs_function
        (probe (map_of [(''FunctionDeclaration'', ObjectEntry True True), (''*'', FunctionEntry)])
           (\<lambda>key n. key = ''FunctionDeclaration'')) None [] []
       = [Entered flat_ifs_function, Called ''*'' flat_ifs_function, Exited flat_ifs_function]"
proof -
  let ?shape = "map_of [(''FunctionDeclaration'', ObjectEntry True True), (''*'', FunctionEntry)]"
  let ?refuse = "\<lambda>key (n::jsval). key = ''FunctionDeclaration''"
  have k: "kind_key flat_ifs_function = ''FunctionDeclaration''"
    by (simp add: flat_ifs_function_def babel_node_def type_key_def)
  have h1: "is_object flat_ifs_function"
    by (simp add: flat_ifs_function_def babel_node_def is_object_def)
  have h2: "descent_suppressed ?shape ?refuse flat_ifs_function"
    by (simp add: descent_suppressed_def k)
  have "traverse flat_ifs_function (probe ?shape ?refuse) None [] []
      = enter_events ?shape flat_ifs_function @ wildcard_events ?shape flat_ifs_function
        @ exit_events ?shape flat_ifs_function"
    using traverse_preorder_skip_exit [of flat_ifs_function ?shape ?refuse None "[]"] h1 h2
    by blast
  then show ?thesis
    using h1 h2 by (simp add: enter_events_def wildcard_events_def exit_events_def k)
qed

subsection \<open>Issues made by \<open>createIssue\<close>\<close>

text \<open>
  Claim C10.  An issue made by \<open>createIssue\<close> always has a location.  For a node
  without \<open>loc\<close> the start and the end of that location are both line 0, column 0 (the
  default; a location among the options replaces it, as the spread does for every
  property), and \<open>extractCodeSnippet\<close> gives the empty string for such a node.
\<close>

theorem createIssue_location_default:
  assumes "loc_of node = None"
  shows "location (createIssue rule msg sev cat node path options) =
           (case opt_location options of
              Some l \<Rightarrow> l
            | None \<Rightarrow> \<lparr>start = \<lparr>line = 0, column = 0\<rparr>, finish = \<lparr>line = 0, column = 0\<rparr>\<rparr>)
         \<and> extractCodeSnippet source node context = ''''"
  using assms by (simp add: createIssue_def extractCodeSnippet_def origin_def split: option.splits)

theorem createIssue_location_default_witness:
  "loc_of (JObj \<lparr>ntype = Some ''Identifier'', loc = None, node_range = None\<rparr>
             [(''name'', JStr ''x'')]) = None
   \<and> location (createIssue ''unused-variable'' ''m'' WARNING CODE_SMELL
        (JObj \<lparr>ntype = Some ''Identifier'', loc = None, node_range = None\<rparr>
           [(''name'', JStr ''x'')]) ''a.js'' no_options)
       = \<lparr>start = \<lparr>line = 0, column = 0\<rparr>, finish = \<lparr>line = 0, column = 0\<rparr>\<rparr>
   \<and> extractCodeSnippet ''let x'' (JObj \<lparr>ntype = Some ''Identifier'', loc = None, node_range = None\<rparr>
        [(''name'', JStr ''x'')]) 2 = ''''"
  using createIssue_location_default
    [of "JObj \<lparr>ntype = Some ''Identifier'', loc = None, node_range = None\<rparr> [(''name'', JStr ''x'')]"
        "''unused-variable''" "''m''" WARNING CODE_SMELL "''a.js''" no_options "''let x''" 2]
  by (simp add: no_options_def)

subsection \<open>The security analyser\<close>

lemma as_SecurityIssue_fields:
  "v \<noteq> [] \<Longrightarrow> c \<noteq> [] \<Longrightarrow> ow \<noteq> [] \<Longrightarrow> has_security_fields (as_SecurityIssue i v c ow)"
  by (simp add: has_security_fields_def as_SecurityIssue_def)

lemma checkSQLInjectionInExpression_fields:
  "list_all has_security_fields is0
     \<Longrightarrow> list_all has_security_fields (checkSQLInjectionInExpression node p src is0)"
  by (simp add: checkSQLInjectionInExpression_def Let_def as_SecurityIssue_fields)

lemma checkSQLInjection_fields:
  "list_all has_security_fields is0
     \<Longrightarrow> list_all has_security_fields (checkSQLInjection node p src is0)"
  by (simp add: checkSQLInjection_def Let_def as_SecurityIssue_fields)

lemma checkCommandInjection_fields:
  "list_all has_security_fields is0
     \<Longrightarrow> list_all has_security_fields (checkCommandInjection node p src is0)"
  by (simp add: checkCommandInjection_def Let_def as_SecurityIssue_fields)

lemma checkXSS_fields:
  "list_all has_security_fields is0 \<Longrightarrow> list_all has_security_fields (checkXSS node p src is0)"
  by (simp add: checkXSS_def as_SecurityIssue_fields)

lemma secret_loop_fields:
  "list_all has_security_fields is0
     \<Longrightarrow> list_all has_security_fields (secret_loop pats v node p src is0)"
  by (induction pats v node p src is0 rule: secret_loop.induct)
     (simp_all add: Let_def as_SecurityIssue_fields)

lemma checkHardcodedSecrets_fields:
  "list_all has_security_fields is0
     \<Longrightarrow> list_all has_security_fields (checkHardcodedSecrets node p src is0)"
  by (simp add: checkHardcodedSecrets_def secret_loop_fields split: jsval.splits)

lemma checkDangerousFunctions_fields:
  "list_all has_security_fields is0
     \<Longrightarrow> list_all has_security_fields (checkDangerousFunctions node p src is0)"
  by (simp add: checkDangerousFunctions_def Let_def as_SecurityIssue_fields)

lemmas security_checks_fields =
  checkSQLInjectionInExpression_fields checkSQLInjection_fields checkCommandInjection_fields
  checkXSS_fields checkHardcodedSecrets_fields checkDangerousFunctions_fields

lemma security_visitor_entries:
  "security_visitor p src k = Some e \<Longrightarrow>
     (\<exists>f. e = on_node f \<and> (\<forall>node is0. list_all has_security_fields is0
                                  \<longrightarrow> list_all has_security_fields (f node is0)))"
  by (auto simp: security_visitor_def security_checks_fields split: if_splits)

lemma security_enter:
  "list_all has_security_fields s
     \<Longrightarrow> list_all has_security_fields (snd (callEnter (security_visitor p src k) n pa path s))"
  by (cases "security_visitor p src k")
     (auto simp: callEnter_def on_node_def dest!: security_visitor_entries)

lemma security_exit:
  "callExit (security_visitor p src k) n pa path s = s"
  by (cases "security_visitor p src k")
     (auto simp: callExit_def on_node_def dest!: security_visitor_entries)

lemma security_wildcard:
  "callWildcard (security_visitor p src) n pa path s = s"
  by (simp add: callWildcard_def security_visitor_def)

text \<open>The issues of the security analyser for the file
  \<^verbatim>\<open>db.query("SELECT * FROM users WHERE id = " + userId);\<close>, under any path and
  language: one from the check of the call, located at the call, and one from the check
  of the concatenation, located at the first argument.\<close>

lemma sql_file_findings:
  "map (\<lambda>i. (ruleId i, severity i, category i, cwe i, location i))
     (SecurityAnalyzer_analyze
        \<lparr>parseResult = \<lparr>ast = sql_ast, language = l, sourceCode = sql_source, filePath = p\<rparr>,
         contextIssues = c\<rparr>)
   = [(''sql-injection'', ERROR, SECURITY, Some ''CWE-89'', src_span 1 0 1 52),
      (''sql-injection'', ERROR, SECURITY, Some ''CWE-89'', src_span 1 9 1 51)]"
  by code_simp

text \<open>
  Claim C8.  Every issue the security analyser returns, for any parsed file, has its
  \<open>vulnerability\<close>, \<open>cwe\<close> and \<open>owasp\<close> properties set to strings that are not
  empty.
\<close>

theorem security_findings_carry_taxonomy:
  "list_all has_security_fields (SecurityAnalyzer_analyze context)"
  unfolding SecurityAnalyzer_analyze_def
  by (rule traverse_invariant [where R = "\<lambda>n. True"])
     (simp_all add: security_enter security_exit security_wildcard)

theorem security_findings_carry_taxonomy_witness:
  "SecurityAnalyzer_analyze \<lparr>parseResult = sql_example, contextIssues = []\<rparr> \<noteq> []
   \<and> list_all has_security_fields
        (SecurityAnalyzer_analyze \<lparr>parseResult = sql_example, contextIssues = []\<rparr>)"
  using security_findings_carry_taxonomy [of "\<lparr>parseResult = sql_example, contextIssues = []\<rparr>"]
    arg_cong [OF sql_file_findings [of "''javascript''" "''test.js''" "[]"], of length]
  by (auto simp add: sql_example_def)



subsection \<open>The complexity analyser\<close>

text \<open>The visitor of \<open>calculateCognitiveComplexity\<close> is only ever called for a node of
  type \<open>*\<close> or \<open>LogicalExpression\<close>; that of \<open>calculateNestingDepth\<close> only for a
  node of type \<open>*\<close>.\<close>

lemma cognitive_without_handlers:
  assumes "all_types (\<lambda>t. type_key t \<noteq> ''*'' \<and> type_key t \<noteq> ''LogicalExpression'') node"
  shows "calculateCognitiveComplexity node = 0"
proof -
  have "traverse node cognitive_visitor None [] (0, 0) = (0, 0)"
    by (rule traverse_unregistered [OF assms]) (simp_all add: cognitive_visitor_def)
  then show ?thesis
    by (simp add: calculateCognitiveComplexity_def)
qed

lemma nesting_depth_without_star:
  assumes "all_types (\<lambda>t. type_key t \<noteq> ''*'') node"
  shows "calculateNestingDepth node = 0"
proof -
  have "traverse node nesting_visitor None [] (0, 0) = (0, 0)"
    by (rule traverse_unregistered [OF assms]) (simp_all add: nesting_visitor_def)
  then show ?thesis
    by (simp add: calculateNestingDepth_def)
qed

lemmas example_defs = babel_node_def plain_object_def type_key_def

lemma analyzeFunctionComplexity_no_nesting_issue:
  assumes "all_types (\<lambda>t. type_key t \<noteq> ''*'') node" and "list_all not_nesting_issue is0"
  shows "list_all not_nesting_issue (analyzeFunctionComplexity node p src is0)"
  using assms(2)
  by (simp add: analyzeFunctionComplexity_def Let_def calculateComplexity_def
        nesting_depth_without_star [OF assms(1)] NESTING_THRESHOLD_def not_nesting_issue_def
        as_ComplexityIssue_def createIssue_def snippet_options_def no_options_def
      split: option.splits)

lemma complexity_visitor_entries:
  "complexity_visitor p src k = Some e \<Longrightarrow>
     (\<exists>f. e = on_node f \<and>
        (\<forall>node is0. all_types (\<lambda>t. type_key t \<noteq> ''*'') node \<longrightarrow> list_all not_nesting_issue is0
             \<longrightarrow> list_all not_nesting_issue (f node is0)))"
  by (auto simp: complexity_visitor_def analyzeFunctionComplexity_no_nesting_issue
        all_types_get_prop split: if_splits)

lemma complexity_enter:
  "all_types (\<lambda>t. type_key t \<noteq> ''*'') n \<Longrightarrow> list_all not_nesting_issue s
     \<Longrightarrow> list_all not_nesting_issue (snd (callEnter (complexity_visitor p src k) n pa path s))"
  by (cases "complexity_visitor p src k")
     (auto simp: callEnter_def on_node_def dest!: complexity_visitor_entries)

lemma complexity_exit:
  "callExit (complexity_visitor p src k) n pa path s = s"
  by (cases "complexity_visitor p src k")
     (auto simp: callExit_def on_node_def dest!: complexity_visitor_entries)

lemma complexity_wildcard:
  "callWildcard (complexity_visitor p src) n pa path s = s"
  by (simp add: callWildcard_def complexity_visitor_def)

text \<open>For a tree without a node of type \<open>*\<close>, which is every tree a parser builds, the
  complexity analyser returns no \<open>excessive-nesting\<close> issue.\<close>

lemma no_nesting_issue_without_star:
  assumes "all_types (\<lambda>t. type_key t \<noteq> ''*'') (ast (parseResult context))"
  shows "list_all not_nesting_issue (ComplexityAnalyzer_analyze context)"
  unfolding ComplexityAnalyzer_analyze_def
  by (rule traverse_invariant [where R = "all_types (\<lambda>t. type_key t \<noteq> ''*'')"])
     (simp_all add: complexity_enter complexity_exit complexity_wildcard all_types_children assms)

lemma complexity_without_functions:
  assumes "all_types (\<lambda>t. type_key t \<notin> set [''FunctionDeclaration'', ''FunctionExpression'',
              ''ArrowFunctionExpression'', ''MethodDefinition'']) (ast (parseResult context))"
  shows "ComplexityAnalyzer_analyze context = []"
  unfolding ComplexityAnalyzer_analyze_def
  by (rule traverse_unregistered [OF assms]) (simp_all add: complexity_visitor_def)

text \<open>
  Claim C1, on the sources.  \<open>calculateCognitiveComplexity\<close> gives 0 for the function
  with three \<open>if\<close> statements in a row, where the claim has 3, and 0 for the function
  with the same three statements nested, where the claim has 6: the \<open>enter\<close> and
  \<open>exit\<close> callbacks under the key \<open>*\<close> are never called.
\<close>

theorem cognitive_complexity_of_if_statements:
  "calculateCognitiveComplexity flat_ifs_function = 0
   \<and> calculateCognitiveComplexity nested_ifs_function = 0"
proof
  show "calculateCognitiveComplexity flat_ifs_function = 0"
    by (rule cognitive_without_handlers) (simp add: flat_ifs_function_def example_defs)
  show "calculateCognitiveComplexity nested_ifs_function = 0"
    by (rule cognitive_without_handlers) (simp add: nested_ifs_function_def example_defs)
qed

text \<open>
  Claim C5, on the sources.  For the function with five nested \<open>if\<close> blocks
  \<open>calculateNestingDepth\<close> gives 0, where the claim has 5, and the complexity analyser
  returns no \<open>excessive-nesting\<close> issue for the file, where the claim has one.
\<close>

theorem five_nested_ifs_no_nesting_finding:
  "calculateNestingDepth deeply_nested_function = 0
   \<and> filter (\<lambda>i. ruleId i = ''excessive-nesting'')
        (ComplexityAnalyzer_analyze \<lparr>parseResult = deeply_nested_example, contextIssues = []\<rparr>) = []"
proof
  show "calculateNestingDepth deeply_nested_function = 0"
    by (rule nesting_depth_without_star) (simp add: deeply_nested_function_def example_defs)
  have "all_types (\<lambda>t. type_key t \<noteq> ''*'')
          (ast (parseResult \<lparr>parseResult = deeply_nested_example, contextIssues = []\<rparr>))"
    by (simp add: deeply_nested_example_def deeply_nested_ast_def deeply_nested_function_def
          example_defs)
  from no_nesting_issue_without_star [OF this]
  show "filter (\<lambda>i. ruleId i = ''excessive-nesting'')
        (ComplexityAnalyzer_analyze \<lparr>parseResult = deeply_nested_example, contextIssues = []\<rparr>) = []"
    by (simp add: filter_empty_conv list_all_iff not_nesting_issue_def)
qed

subsection \<open>The three analysers on \<^verbatim>\<open>const x = 1;\<close>\<close>

lemma const_x_security:
  "SecurityAnalyzer_analyze \<lparr>parseResult = const_x_example, contextIssues = []\<rparr> = []"
  by code_simp

lemma const_x_complexity:
  "ComplexityAnalyzer_analyze \<lparr>parseResult = const_x_example, contextIssues = []\<rparr> = []"
  by (rule complexity_without_functions)
     (simp add: const_x_example_def const_x_ast_def example_defs)

text \<open>The traversal of the code quality analyser: the declarator adds \<open>x\<close> to the
  declared names, and the identifier of that declarator adds \<open>x\<close> to the used names.\<close>

lemma const_x_quality_state:
  "traverse const_x_ast (quality_visitor p src) None []
     \<lparr>found = [], declaredVariables = [], usedVariables = []\<rparr>
   = \<lparr>found = [], declaredVariables = [''x''], usedVariables = [''x'']\<rparr>"
  by code_simp

lemma const_x_quality:
  "CodeQualityAnalyzer_analyze \<lparr>parseResult = const_x_example, contextIssues = []\<rparr> = []"
  by (simp add: CodeQualityAnalyzer_analyze_def const_x_example_def const_x_quality_state
        unused_variable_step_def)

lemma const_x_no_issues:
  "context_after new_AnalyzerCoordinator const_x_example
     = \<lparr>parseResult = const_x_example, contextIssues = []\<rparr>"
  by (simp add: context_after_def new_AnalyzerCoordinator_def SecurityAnalyzer_def
        ComplexityAnalyzer_def CodeQualityAnalyzer_def const_x_security const_x_complexity
        const_x_quality)

text \<open>
  Claim C6, on the sources.  In \<^verbatim>\<open>const x = 1;\<close> the name \<open>x\<close> is declared, is
  referenced nowhere else and does not start with an underscore, and the code quality
  analyser returns no \<open>unused-variable\<close> issue for it, where the claim has one.
\<close>

theorem declared_unused_variable_not_reported:
  "declaredVariables (traverse (ast const_x_example)
       (quality_visitor (filePath const_x_example) (sourceCode const_x_example)) None []
       \<lparr>found = [], declaredVariables = [], usedVariables = []\<rparr>) = [''x'']
   \<and> usedVariables (traverse (ast const_x_example)
       (quality_visitor (filePath const_x_example) (sourceCode const_x_example)) None []
       \<lparr>found = [], declaredVariables = [], usedVariables = []\<rparr>) = [''x'']
   \<and> filter (\<lambda>i. ruleId i = ''unused-variable'')
        (CodeQualityAnalyzer_analyze \<lparr>parseResult = const_x_example, contextIssues = []\<rparr>) = []"
  by (simp add: const_x_quality) (simp add: const_x_example_def const_x_quality_state)

subsection \<open>The coordinator\<close>




lemma resultIssues_analyzeFile:
  "resultIssues (analyzeFile analyzers pr) = contextIssues (context_after analyzers pr)"
  by (simp add: analyzeFile_def Let_def)


lemma foldl_plus_sum_list:
  "foldl (\<lambda>acc i. acc + f i) (a::rat) xs = a + sum_list (map f xs)"
  by (induction xs arbitrary: a) (simp_all add: add.assoc)




text \<open>
  Claim C2, as the sources have it.  The \<open>complexity\<close> of the file metrics is the mean
  of the scores of the issues of category \<open>COMPLEXITY\<close> (an issue without a score
  counts 0), or 1 when there is none, and the \<open>maintainability\<close> is
  \<open>max(0, 100 - 2 * (number of issues) - 2 * complexity)\<close>.  For a file without
  issues that is \<open>complexity = 1\<close> and \<open>maintainability = 98\<close>.
\<close>

theorem analyzeFile_metrics:
  "complexity (metrics (analyzeFile analyzers pr))
     = (let scores = map score_or_zero
                       (filter (\<lambda>i. category i = COMPLEXITY) (resultIssues (analyzeFile analyzers pr)))
        in if scores = [] then 1 else sum_list scores / of_nat (length scores))
   \<and> maintainability (metrics (analyzeFile analyzers pr))
     = max 0 (100 - 2 * of_nat (length (resultIssues (analyzeFile analyzers pr)))
                  - 2 * complexity (metrics (analyzeFile analyzers pr)))
   \<and> (resultIssues (analyzeFile analyzers pr) = []
        \<longrightarrow> complexity (metrics (analyzeFile analyzers pr)) = 1
            \<and> maintainability (metrics (analyzeFile analyzers pr)) = 98)"
  by (simp add: analyzeFile_def calculateFileMetrics_def Let_def foldl_plus_sum_list mult.commute)

theorem analyzeFile_metrics_witness:
  "resultIssues (analyzeFile new_AnalyzerCoordinator const_x_example) = []
   \<and> complexity (metrics (analyzeFile new_AnalyzerCoordinator const_x_example)) = 1
   \<and> maintainability (metrics (analyzeFile new_AnalyzerCoordinator const_x_example)) = 98"
proof -
  have h: "resultIssues (analyzeFile new_AnalyzerCoordinator const_x_example) = []"
    by (simp add: resultIssues_analyzeFile const_x_no_issues)
  from analyzeFile_metrics [of new_AnalyzerCoordinator const_x_example] h show ?thesis
    by blast
qed

text \<open>Claim C2 as stated, \<open>maintainability = 100\<close> for a file without issues, fails
  on \<^verbatim>\<open>const x = 1;\<close>.\<close>

theorem zero_findings_maintainability_counterexample:
  "resultIssues (analyzeFile new_AnalyzerCoordinator const_x_example) = []
   \<and> maintainability (metrics (analyzeFile new_AnalyzerCoordinator const_x_example)) \<noteq> 100"
  by (simp add: analyzeFile_def Let_def const_x_no_issues calculateFileMetrics_def)

subsection \<open>Project metrics\<close>

lemma analyze_files_no_metrics:
  "list_all (\<lambda>f. anyMetrics f = None) (files result)
     \<Longrightarrow> list_all (\<lambda>f. anyMetrics f = None)
           (files (analyze_files analyzers parseFile aiReview paths result))"
  by (induction paths arbitrary: result) (simp_all split: sum.splits)

lemma complexity_sum_no_metrics:
  "list_all (\<lambda>f. anyMetrics f = None) fs \<Longrightarrow> foldl complexity_step 0 fs = 0"
proof (induction fs rule: rev_induct)
  case Nil
  show ?case by simp
next
  case (snoc f fs)
  then show ?case by (simp add: complexity_step_def)
qed

text \<open>What \<open>calculateProjectMetrics\<close> computes from its own average: the total of the
  lines, the clamped index, and the grade of that index.\<close>

lemma calculateProjectMetrics_formula:
  "totalLines (code (calculateProjectMetrics result))
     = sum_list (map (\<lambda>f. linesOfCode (info f)) (files result))
   \<and> maintainabilityIndex (quality (calculateProjectMetrics result))
     = max 0 (min 100 (100 - 2 * of_nat (length (projectIssues result))
                          - 5 * averageComplexity (code (calculateProjectMetrics result))))
   \<and> grade (calculateProjectMetrics result)
     = calculateGrade (maintainabilityIndex (quality (calculateProjectMetrics result)))"
proof -
  have total: "foldl (\<lambda>acc f. acc + linesOfCode (info f)) a fs
          = a + sum_list (map (\<lambda>f. linesOfCode (info f)) fs)"
    for a :: nat and fs :: "ProjectFile list"
    by (induction fs arbitrary: a) simp_all
  show ?thesis
    by (simp add: calculateProjectMetrics_def Let_def mult.commute total)
qed

lemma calculateGrade_letter:
  "letter (calculateGrade sc)
     = (if sc \<ge> 80 then GradeA else if sc \<ge> 60 then GradeB else if sc \<ge> 40 then GradeC
        else if sc \<ge> 20 then GradeD else GradeF)
   \<and> label (calculateGrade sc)
     = (if sc \<ge> 80 then ''Excellent'' else if sc \<ge> 60 then ''Good''
        else if sc \<ge> 40 then ''Fair'' else if sc \<ge> 20 then ''Poor'' else ''Critical'')"
  by (simp add: calculateGrade_def)

text \<open>
  Claim C9, on the sources.  The \<open>averageComplexity\<close> of a directory analysis is 0
  whatever the files are: the elements of \<open>result.files\<close> carry no \<open>metrics\<close>.  For
  the directory with the one file \<^verbatim>\<open>const x = 1;\<close>, whose file metrics have
  \<open>complexity = 1\<close>, the claim has the mean 1 and the index 95; the code gives 0 and
  100.
\<close>

theorem average_complexity_ignores_files:
  "averageComplexity (code (projectMetrics
       (analyzeDirectory analyzers parseFile aiReview directoryPath findFiles))) = 0
   \<and> complexity (metrics (analyzeFile new_AnalyzerCoordinator const_x_example)) = 1
   \<and> maintainabilityIndex (quality (projectMetrics
       (analyzeDirectory new_AnalyzerCoordinator (\<lambda>p. Inr const_x_example) None ''project''
          (Inr [''project/test.js''])))) = 100"
proof (intro conjI)
  show "averageComplexity (code (projectMetrics
       (analyzeDirectory analyzers parseFile aiReview directoryPath findFiles))) = 0"
  proof (cases findFiles)
    case (Inl e)
    then show ?thesis by (simp add: analyzeDirectory_def createEmptyMetrics_def)
  next
    case (Inr paths)
    let ?r0 = "\<lparr>status = RUNNING, projectPath = directoryPath, files = [],
                 projectIssues = [], projectSuggestions = [],
                 projectMetrics = createEmptyMetrics, projectError = None\<rparr>"
    have "list_all (\<lambda>f. anyMetrics f = None)
            (files (analyze_files analyzers parseFile aiReview paths ?r0))"
      by (rule analyze_files_no_metrics) simp
    then have "foldl complexity_step 0
                 (files (analyze_files analyzers parseFile aiReview paths ?r0)) = 0"
      by (rule complexity_sum_no_metrics)
    then show ?thesis
      using Inr by (simp add: analyzeDirectory_def calculateProjectMetrics_def Let_def)
  qed
  show "complexity (metrics (analyzeFile new_AnalyzerCoordinator const_x_example)) = 1"
    by (simp add: analyzeFile_def Let_def const_x_no_issues calculateFileMetrics_def)
  show "maintainabilityIndex (quality (projectMetrics
       (analyzeDirectory new_AnalyzerCoordinator (\<lambda>p. Inr const_x_example) None ''project''
          (Inr [''project/test.js''])))) = 100"
    by (simp add: analyzeDirectory_def service_analyzeFile_def analyzeFile_def Let_def
          const_x_no_issues calculateProjectMetrics_def complexity_step_def)
qed

end
